theory Spec2Isabelle
  imports Complex_Main "HOL-Library.Word" "HOL-Library.Char_ord" "HOL-Library.List_Lexorder"
    "HOL-Library.Multiset"
begin

section \<open>Data model\<close>

text \<open>
  The route module \<^verbatim>\<open>app/routes/upload.tsx\<close> (and the loader of \<^verbatim>\<open>app/routes/home.tsx\<close>)
  talks to two external stores: the D1 table \<^verbatim>\<open>files\<close> and the R2 bucket
  \<^verbatim>\<open>aoya-pottery\<close>. Both are modelled as explicit state. A JavaScript exception is a value
  of type \<open>thrown\<close>; \<open>Error msg\<close> is an \<^verbatim>\<open>Error\<close> instance with that message, \<open>NonError\<close>
  any other thrown value (the upload handler tests \<^verbatim>\<open>error instanceof Error\<close>).
\<close>

datatype thrown = Error string | NonError

text \<open>One row of the table \<^verbatim>\<open>files\<close> (schema file plus the lazily added column).\<close>

record file_row =
  row_id :: string
  row_filename :: string
  row_url :: string
  row_size :: nat
  row_content_type :: "string option"
  row_uploaded_at :: string
  row_display_order :: "int option"

text \<open>
  What the transcoder hands to the object store: the JPEG produced by
  \<^verbatim>\<open>get_bytes_jpeg(quality)\<close> from an image of the given dimensions. Pixel data is not
  modelled; the byte length of the encoding is an input of the model.
\<close>

record image =
  img_width :: "32 word"
  img_height :: "32 word"

datatype sampling_filter = Triangle | Lanczos3

record jpeg =
  jpeg_width :: "32 word"
  jpeg_height :: "32 word"
  jpeg_quality :: nat
  jpeg_length :: nat

record stored_object =
  obj_body :: jpeg
  obj_content_type :: string
  obj_acl :: string

record world =
  rows :: "file_row list"
  has_display_order :: bool
  bucket :: "string \<rightharpoonup> stored_object"

record upload_file =
  file_name :: string
  file_size :: nat

text \<open>
  One element of the submitted order. The handler casts the parsed JSON to an array of
  \<^verbatim>\<open>{id: string; order: number}\<close> and the model takes that type at its word; the rank is
  an integer (the admin page sends the list position plus one), and so is the column.
\<close>

record reorder_item =
  item_id :: string
  item_order :: int

text \<open>The multipart form of a request: \<^verbatim>\<open>formData.get\<close> yields \<^verbatim>\<open>null\<close> for a missing field.\<close>

record form_data =
  fd_intent :: "string option"
  fd_order :: "string option"
  fd_id :: "string option"
  fd_filename :: "string option"
  fd_file :: "upload_file option"

text \<open>
  Everything a request reads from outside the two stores: the outcome of the library
  calls (\<^verbatim>\<open>JSON.parse\<close>, the image decoder and encoder), the clock, the fresh identifier,
  and for every remote call whether it throws for a reason outside the model (network,
  credentials). A remote call that throws leaves its store unchanged. \<open>update_fault i\<close>
  is the fault of the \<open>i\<close>-th iteration of the reorder loop.
\<close>

record env =
  json_parse :: "string \<Rightarrow> thrown + reorder_item list"
  alter_fault :: "thrown option"
  update_fault :: "nat \<Rightarrow> thrown option"
  s3_delete_fault :: "thrown option"
  db_delete_fault :: "thrown option"
  select_filenames_fault :: "thrown option"
  decode :: "thrown + image"
  resize_fault :: "thrown option"
  encode_fault :: "thrown option"
  encoded_length :: nat
  date_now :: int
  s3_put_fault :: "thrown option"
  max_order_fault :: "thrown option"
  insert_fault :: "thrown option"
  random_uuid :: string
  now_iso :: string
  ordered_query_fault :: "thrown option"
  fallback_query_fault :: "thrown option"

record response =
  status :: nat
  success :: bool
  message :: string

section \<open>The metadata store\<close>

text \<open>
  Each statement the handlers prepare is one function. A statement that names the column
  \<^verbatim>\<open>display_order\<close> throws while the column does not exist.
\<close>

definition no_such_column :: thrown where
  "no_such_column = Error ''no such column: display_order''"

text \<open>\<^verbatim>\<open>ALTER TABLE files ADD COLUMN display_order INTEGER\<close>\<close>

definition db_add_display_order :: "thrown option \<Rightarrow> world \<Rightarrow> thrown + world" where
  "db_add_display_order fault w =
     (case fault of
        Some e \<Rightarrow> Inl e
      | None \<Rightarrow>
          if has_display_order w then Inl (Error ''duplicate column name: display_order'')
          else Inr (w\<lparr>rows := map (\<lambda>r. r\<lparr>row_display_order := None\<rparr>) (rows w),
                      has_display_order := True\<rparr>))"

text \<open>\<^verbatim>\<open>UPDATE files SET display_order = ? WHERE id = ?\<close>\<close>

definition set_display_order :: "int \<Rightarrow> string \<Rightarrow> world \<Rightarrow> world" where
  "set_display_order ord ident w =
     w\<lparr>rows := map (\<lambda>r. if row_id r = ident then r\<lparr>row_display_order := Some ord\<rparr> else r)
                   (rows w)\<rparr>"

definition db_update_display_order ::
  "thrown option \<Rightarrow> int \<Rightarrow> string \<Rightarrow> world \<Rightarrow> thrown + world" where
  "db_update_display_order fault ord ident w =
     (case fault of
        Some e \<Rightarrow> Inl e
      | None \<Rightarrow>
          if \<not> has_display_order w then Inl no_such_column
          else Inr (set_display_order ord ident w))"

text \<open>\<^verbatim>\<open>DELETE FROM files WHERE id = ?\<close>; a \<^verbatim>\<open>null\<close> parameter matches no row.\<close>

definition db_delete :: "thrown option \<Rightarrow> string option \<Rightarrow> world \<Rightarrow> thrown + world" where
  "db_delete fault ident w =
     (case fault of
        Some e \<Rightarrow> Inl e
      | None \<Rightarrow> Inr (w\<lparr>rows := filter (\<lambda>r. Some (row_id r) \<noteq> ident) (rows w)\<rparr>))"

text \<open>\<^verbatim>\<open>SELECT filename FROM files\<close>\<close>

definition db_select_filenames :: "thrown option \<Rightarrow> world \<Rightarrow> thrown + string list" where
  "db_select_filenames fault w =
     (case fault of Some e \<Rightarrow> Inl e | None \<Rightarrow> Inr (map row_filename (rows w)))"

text \<open>
  \<^verbatim>\<open>SELECT MAX(display_order) as max_order FROM files\<close>: one result row whose
  \<^verbatim>\<open>max_order\<close> is \<^verbatim>\<open>null\<close> when no row has a value.
\<close>

definition max_display_order :: "file_row list \<Rightarrow> int option" where
  "max_display_order rs =
     (case List.map_filter row_display_order rs of
        [] \<Rightarrow> None
      | x # xs \<Rightarrow> Some (fold max xs x))"

definition db_select_max_order :: "thrown option \<Rightarrow> world \<Rightarrow> thrown + int option" where
  "db_select_max_order fault w =
     (case fault of
        Some e \<Rightarrow> Inl e
      | None \<Rightarrow> if \<not> has_display_order w then Inl no_such_column
                else Inr (max_display_order (rows w)))"

text \<open>
  \<^verbatim>\<open>INSERT INTO files (id, filename, url, size, content_type, uploaded_at, display_order)\<close>;
  \<^verbatim>\<open>id\<close> is the primary key.
\<close>

definition db_insert :: "thrown option \<Rightarrow> file_row \<Rightarrow> world \<Rightarrow> thrown + world" where
  "db_insert fault r w =
     (case fault of
        Some e \<Rightarrow> Inl e
      | None \<Rightarrow>
          if \<not> has_display_order w then
            Inl (Error ''table files has no column named display_order'')
          else if row_id r \<in> set (map row_id (rows w)) then
            Inl (Error ''UNIQUE constraint failed: files.id'')
          else Inr (w\<lparr>rows := rows w @ [r]\<rparr>))"

section \<open>The object store\<close>

text \<open>
  \<^verbatim>\<open>PutObjectCommand\<close> and \<^verbatim>\<open>DeleteObjectCommand\<close> on the bucket. The client refuses a
  delete command whose \<^verbatim>\<open>Key\<close> is \<^verbatim>\<open>null\<close> or empty (the key is a label of the request
  path); deleting a key that holds no object succeeds.
\<close>

definition missing_key :: thrown where
  "missing_key = Error ''no value for input HTTP label: Key''"

definition s3_put :: "thrown option \<Rightarrow> string \<Rightarrow> stored_object \<Rightarrow> world \<Rightarrow> thrown + world" where
  "s3_put fault key obj w =
     (case fault of
        Some e \<Rightarrow> Inl e
      | None \<Rightarrow> Inr (w\<lparr>bucket := (bucket w)(key \<mapsto> obj)\<rparr>))"

definition s3_delete :: "thrown option \<Rightarrow> string option \<Rightarrow> world \<Rightarrow> thrown + world" where
  "s3_delete fault key w =
     (case fault of
        Some e \<Rightarrow> Inl e
      | None \<Rightarrow>
          (case key of
             None \<Rightarrow> Inl missing_key
           | Some k \<Rightarrow> if k = [] then Inl missing_key
                       else Inr (w\<lparr>bucket := (bucket w)(k := None)\<rparr>)))"

section \<open>The action\<close>

definition jsonResponse :: "bool \<Rightarrow> string \<Rightarrow> nat \<Rightarrow> response" where
  "jsonResponse ok msg st = \<lparr>status = st, success = ok, message = msg\<rparr>"

subsection \<open>Reorder\<close>

text \<open>The \<^verbatim>\<open>for (const item of order)\<close> loop: the first statement that throws ends it.\<close>

fun reorder_loop ::
  "(nat \<Rightarrow> thrown option) \<Rightarrow> nat \<Rightarrow> reorder_item list \<Rightarrow> world \<Rightarrow> thrown option \<times> world" where
  "reorder_loop uf i [] w = (None, w)"
| "reorder_loop uf i (item # items) w =
     (case db_update_display_order (uf i) (item_order item) (item_id item) w of
        Inl e \<Rightarrow> (Some e, w)
      | Inr w' \<Rightarrow> reorder_loop uf (Suc i) items w')"

text \<open>The column is added on demand; a failure of that statement is swallowed.\<close>

definition try_add_display_order :: "thrown option \<Rightarrow> world \<Rightarrow> world" where
  "try_add_display_order fault w =
     (case db_add_display_order fault w of Inl e \<Rightarrow> w | Inr w' \<Rightarrow> w')"

text \<open>The effect of the statements of a list of items, run in the order of the list.\<close>

definition apply_updates :: "reorder_item list \<Rightarrow> world \<Rightarrow> world" where
  "apply_updates items w = fold (\<lambda>item. set_display_order (item_order item) (item_id item)) items w"

definition reorder :: "env \<Rightarrow> form_data \<Rightarrow> world \<Rightarrow> response \<times> world" where
  "reorder en fd w =
     (case fd_order fd of
        None \<Rightarrow> (jsonResponse False ''No order data provided'' 400, w)
      | Some orderData \<Rightarrow>
          if orderData = [] then (jsonResponse False ''No order data provided'' 400, w)
          else
            (case json_parse en orderData of
               Inl e \<Rightarrow> (jsonResponse False ''Failed to update order'' 500, w)
             | Inr ord \<Rightarrow>
                 let w1 = try_add_display_order (alter_fault en) w in
                 (case reorder_loop (update_fault en) 0 ord w1 of
                    (Some e, w2) \<Rightarrow> (jsonResponse False ''Failed to update order'' 500, w2)
                  | (None, w2) \<Rightarrow> (jsonResponse True ''Order updated successfully'' 200, w2))))"

subsection \<open>Delete\<close>

definition delete_file :: "env \<Rightarrow> form_data \<Rightarrow> world \<Rightarrow> response \<times> world" where
  "delete_file en fd w =
     (let fileId = fd_id fd; filename = fd_filename fd in
      case s3_delete (s3_delete_fault en) filename w of
        Inl e \<Rightarrow> (jsonResponse False ''Failed to delete file'' 500, w)
      | Inr w1 \<Rightarrow>
          (case db_delete (db_delete_fault en) fileId w1 of
             Inl e \<Rightarrow> (jsonResponse False ''Failed to delete file'' 500, w1)
           | Inr w2 \<Rightarrow> (jsonResponse True ''File deleted successfully'' 200, w2)))"

subsection \<open>Double-precision arithmetic\<close>

text \<open>
  \<^verbatim>\<open>originalHeight / originalWidth\<close> and \<^verbatim>\<open>maxWidth * aspectRatio\<close> are operations on
  JavaScript numbers, i.e. IEEE-754 doubles with round-to-nearest, ties-to-even. A finite
  non-negative double is \<open>mant * 2 ^ expo\<close>. All operands here are below \<open>2 ^ 32\<close>
  and the quotient is zero or at least \<open>2 ^ - 32\<close>, so neither overflow nor subnormal
  numbers occur and the exponent is left unbounded.
\<close>

record double =
  mant :: nat
  expo :: int

definition dval :: "double \<Rightarrow> rat" where
  "dval d = of_nat (mant d) * 2 powi (expo d)"

fun bit_length :: "nat \<Rightarrow> nat" where
  "bit_length n = (if n = 0 then 0 else Suc (bit_length (n div 2)))"

declare bit_length.simps [simp del]

text \<open>\<open>ilog2_frac p q\<close> is the exponent \<open>e\<close> with \<open>2 ^ e \<le> p / q < 2 ^ (e + 1)\<close>.\<close>

definition ilog2_frac :: "nat \<Rightarrow> nat \<Rightarrow> int" where
  "ilog2_frac p q =
     (let d = int (bit_length p) - int (bit_length q) in
      if (if 0 \<le> d then q * 2 ^ nat d \<le> p else q \<le> p * 2 ^ nat (- d)) then d else d - 1)"

text \<open>The integer nearest to \<open>n / den\<close>, a tie going to the even neighbour.\<close>

definition round_half_even :: "nat \<Rightarrow> nat \<Rightarrow> nat" where
  "round_half_even n den =
     (let k = n div den; r = n mod den in
      if 2 * r < den then k
      else if den < 2 * r then k + 1
      else if even k then k else k + 1)"

text \<open>
  The double nearest to \<open>p / q\<close> for \<open>q > 0\<close>: the quotient is scaled into
  \<open>[2 ^ 52, 2 ^ 53)\<close> and rounded to an integer (a result of \<open>2 ^ 53\<close> is the next power
  of two, which is a double as well).
\<close>

definition round53 :: "nat \<Rightarrow> nat \<Rightarrow> double" where
  "round53 p q =
     (if p = 0 then \<lparr>mant = 0, expo = 0\<rparr>
      else
        let e = ilog2_frac p q; sh = 52 - e in
        \<lparr>mant = (if 0 \<le> sh then round_half_even (p * 2 ^ nat sh) q
                  else round_half_even p (q * 2 ^ nat (- sh))),
         expo = - sh\<rparr>)"

text \<open>
  \<open>a / b\<close> of two integers below \<open>2 ^ 53\<close> (the handler divides by a width above the
  maximum width, never by zero), and \<open>m * d\<close> for such an integer \<open>m\<close>.
\<close>

definition fdiv :: "nat \<Rightarrow> nat \<Rightarrow> double" where
  "fdiv a b = round53 a b"

definition fmul :: "nat \<Rightarrow> double \<Rightarrow> double" where
  "fmul m d = (let r = round53 (m * mant d) 1 in r\<lparr>expo := expo r + expo d\<rparr>)"

text \<open>\<^verbatim>\<open>Math.round\<close>: the nearest integer, a tie going up; \<open>\<lfloor>x + 1/2\<rfloor>\<close>.\<close>

definition math_round :: "double \<Rightarrow> int" where
  "math_round d =
     (if 0 \<le> expo d then int (mant d * 2 ^ nat (expo d))
      else int ((2 * mant d + 2 ^ nat (- expo d)) div 2 ^ (nat (- expo d) + 1)))"

text \<open>
  A rank read from the table reaches the handler as a JavaScript number: \<open>js_number i\<close>
  is the integer value of the double nearest to the integer \<open>i\<close>, and \<open>js_plus_one m\<close> is
  \<^verbatim>\<open>maxOrder + 1\<close>, the double nearest to the sum.
\<close>

definition number_of_nat :: "nat \<Rightarrow> nat" where
  "number_of_nat n = nat (math_round (round53 n 1))"

definition js_number :: "int \<Rightarrow> int" where
  "js_number i =
     (if i < 0 then - int (number_of_nat (nat (- i))) else int (number_of_nat (nat i)))"

definition js_plus_one :: "int \<Rightarrow> int" where
  "js_plus_one m = js_number (js_number m + 1)"

subsection \<open>Upload\<close>

definition maxFileSize :: nat where
  "maxFileSize = 50 * 1024 * 1024"

text \<open>
  The tier chain. \<open>fileSizeMB\<close> is \<^verbatim>\<open>file.size / (1024 * 1024)\<close>; dividing an integer
  below \<open>2 ^ 53\<close> by a power of two is exact in double precision, so it is a rational here.
\<close>

definition select_tier :: "rat \<Rightarrow> nat \<Rightarrow> nat \<Rightarrow> nat \<times> nat" where
  "select_tier fileSizeMB originalWidth originalHeight =
     (if fileSizeMB > 20 \<or> originalWidth > 5000 \<or> originalHeight > 5000 then (1600, 70)
      else if fileSizeMB > 10 \<or> originalWidth > 4000 \<or> originalHeight > 4000 then (1800, 72)
      else if originalWidth > 3000 \<or> originalHeight > 3000 then (1920, 75)
      else (1920, 75))"

text \<open>The image library: \<^verbatim>\<open>resize\<close> and \<^verbatim>\<open>get_bytes_jpeg\<close> take 32-bit dimensions.\<close>

definition resize ::
  "thrown option \<Rightarrow> image \<Rightarrow> nat \<Rightarrow> int \<Rightarrow> sampling_filter \<Rightarrow> thrown + image" where
  "resize fault img wd ht samplingFilter =
     (case fault of
        Some e \<Rightarrow> Inl e
      | None \<Rightarrow> Inr \<lparr>img_width = of_nat wd, img_height = of_int ht\<rparr>)"

definition get_bytes_jpeg :: "thrown option \<Rightarrow> nat \<Rightarrow> image \<Rightarrow> nat \<Rightarrow> thrown + jpeg" where
  "get_bytes_jpeg fault len img quality =
     (case fault of
        Some e \<Rightarrow> Inl e
      | None \<Rightarrow> Inr \<lparr>jpeg_width = img_width img, jpeg_height = img_height img,
                      jpeg_quality = quality, jpeg_length = len\<rparr>)"

definition new_height :: "nat \<Rightarrow> nat \<Rightarrow> nat \<Rightarrow> int" where
  "new_height maxWidth originalWidth originalHeight =
     (let aspectRatio = fdiv originalHeight originalWidth in math_round (fmul maxWidth aspectRatio))"

definition transcode :: "env \<Rightarrow> nat \<Rightarrow> image \<Rightarrow> thrown + jpeg" where
  "transcode en fileSize inputImage =
     (let originalWidth = unat (img_width inputImage);
          originalHeight = unat (img_height inputImage);
          fileSizeMB = (of_nat fileSize :: rat) / (1024 * 1024);
          (maxWidth, quality) = select_tier fileSizeMB originalWidth originalHeight;
          needsResize = originalWidth > maxWidth
      in
        case (if needsResize then
                let newHeight = new_height maxWidth originalWidth originalHeight;
                    samplingFilter = (if originalWidth > 5000 \<or> fileSizeMB > 20
                                      then Triangle else Lanczos3)
                in resize (resize_fault en) inputImage maxWidth newHeight samplingFilter
              else Inr inputImage) of
          Inl e \<Rightarrow> Inl e
        | Inr outputImage \<Rightarrow>
            get_bytes_jpeg (encode_fault en) (encoded_length en) outputImage quality)"

text \<open>\<^verbatim>\<open>String.prototype.lastIndexOf\<close> for a single character: \<open>- 1\<close> when absent.\<close>

primrec last_index_from :: "char \<Rightarrow> string \<Rightarrow> nat \<Rightarrow> int \<Rightarrow> int" where
  "last_index_from c [] i found = found"
| "last_index_from c (x # xs) i found =
     last_index_from c xs (Suc i) (if x = c then int i else found)"

definition lastIndexOf :: "string \<Rightarrow> char \<Rightarrow> int" where
  "lastIndexOf s c = last_index_from c s 0 (- 1)"

definition nameWithoutExt :: "string \<Rightarrow> string" where
  "nameWithoutExt originalName =
     (let lastDotIndex = lastIndexOf originalName CHR ''.'' in
      if lastDotIndex > 0 then take (nat lastDotIndex) originalName else originalName)"

text \<open>Decimal rendering of the millisecond clock inside the template string.\<close>

fun string_of_nat :: "nat \<Rightarrow> string" where
  "string_of_nat n =
     (if n < 10 then [''0123456789'' ! n]
      else string_of_nat (n div 10) @ [''0123456789'' ! (n mod 10)])"

declare string_of_nat.simps [simp del]

definition string_of_int :: "int \<Rightarrow> string" where
  "string_of_int i = (if i < 0 then CHR ''-'' # string_of_nat (nat (- i)) else string_of_nat (nat i))"

definition stored_filename :: "string list \<Rightarrow> string \<Rightarrow> int \<Rightarrow> string" where
  "stored_filename existingFilenames originalName timestamp =
     (let base = nameWithoutExt originalName;
          filename = base @ ''.jpg''
      in if filename \<in> set existingFilenames
         then base @ ''-'' @ string_of_int timestamp @ ''.jpg''
         else filename)"

text \<open>\<^verbatim>\<open>String.prototype.includes\<close>\<close>

fun includes_str :: "string \<Rightarrow> string \<Rightarrow> bool" where
  "includes_str [] p = (p = [])"
| "includes_str (c # cs) p = (take (length p) (c # cs) = p \<or> includes_str cs p)"

text \<open>The outer \<^verbatim>\<open>catch\<close> of the upload branch.\<close>

definition upload_failed :: "thrown \<Rightarrow> response" where
  "upload_failed e =
     (let errorMessage = (case e of Error m \<Rightarrow> m | NonError \<Rightarrow> ''Failed to upload file'') in
      if includes_str errorMessage ''memory'' \<or> includes_str errorMessage ''Memory'' then
        jsonResponse False
          ''File is too large or complex. Please try reducing the image dimensions or use a smaller file.''
          413
      else jsonResponse False errorMessage 500)"

text \<open>
  The rank of the new row: \<^verbatim>\<open>maxOrder + 1\<close> on the number the statement returns, and 1
  when it returns \<^verbatim>\<open>null\<close> or throws.
\<close>

definition next_order :: "thrown option \<Rightarrow> world \<Rightarrow> int" where
  "next_order fault w =
     (case db_select_max_order fault w of
        Inl e \<Rightarrow> 1
      | Inr None \<Rightarrow> 1
      | Inr (Some maxOrder) \<Rightarrow> js_plus_one maxOrder)"

definition upload :: "env \<Rightarrow> form_data \<Rightarrow> world \<Rightarrow> response \<times> world" where
  "upload en fd w =
     (case fd_file fd of
        None \<Rightarrow> (jsonResponse False ''No file provided'' 400, w)
      | Some file \<Rightarrow>
          if file_size file > maxFileSize then
            (jsonResponse False ''File size exceeds 50MB limit. Please use a smaller image.'' 400, w)
          else
            (case db_select_filenames (select_filenames_fault en) w of
               Inl e \<Rightarrow> (upload_failed e, w)
             | Inr existingFilenames \<Rightarrow>
            (case decode en of
               Inl e \<Rightarrow> (upload_failed e, w)
             | Inr inputImage \<Rightarrow>
            (case transcode en (file_size file) inputImage of
               Inl e \<Rightarrow> (upload_failed e, w)
             | Inr optimizedBuffer \<Rightarrow>
                 let filename = stored_filename existingFilenames (file_name file) (date_now en);
                     contentType = ''image/jpeg''
                 in
            (case s3_put (s3_put_fault en) filename
                    \<lparr>obj_body = optimizedBuffer, obj_content_type = contentType,
                     obj_acl = ''public-read''\<rparr> w of
               Inl e \<Rightarrow> (upload_failed e, w)
             | Inr w1 \<Rightarrow>
                 let bufferSize = jpeg_length optimizedBuffer;
                     url = ''https://asset.aoya-pottery.com/'' @ filename;
                     w2 = try_add_display_order (alter_fault en) w1;
                     newOrder = next_order (max_order_fault en) w2
                 in
            (case db_insert (insert_fault en)
                    \<lparr>row_id = random_uuid en, row_filename = filename, row_url = url,
                     row_size = bufferSize, row_content_type = Some contentType,
                     row_uploaded_at = now_iso en, row_display_order = Some newOrder\<rparr> w2 of
               Inl e \<Rightarrow> (upload_failed e, w2)
             | Inr w3 \<Rightarrow> (jsonResponse True ''File uploaded successfully'' 200, w3)))))))"

text \<open>
  The handler suspends at every \<^verbatim>\<open>await\<close>, and the admin page sends the files of one
  selection as separate requests at once (\<^verbatim>\<open>Promise.all\<close>), so requests of one batch
  overlap. \<open>upload_read\<close> is the handler up to and including its first statement, the
  read of the existing filenames; \<open>upload_after_read\<close> is the rest, run on the names that
  were read. \<open>in_flight_pair\<close> is the schedule in which two requests both read before
  either goes on, the first then runs to its end, and the second after it.
\<close>

definition upload_read ::
  "env \<Rightarrow> form_data \<Rightarrow> world \<Rightarrow> response + upload_file \<times> string list" where
  "upload_read en fd w =
     (case fd_file fd of
        None \<Rightarrow> Inl (jsonResponse False ''No file provided'' 400)
      | Some file \<Rightarrow>
          if file_size file > maxFileSize then
            Inl (jsonResponse False ''File size exceeds 50MB limit. Please use a smaller image.'' 400)
          else
            (case db_select_filenames (select_filenames_fault en) w of
               Inl e \<Rightarrow> Inl (upload_failed e)
             | Inr existingFilenames \<Rightarrow> Inr (file, existingFilenames)))"

definition upload_after_read ::
  "env \<Rightarrow> upload_file \<Rightarrow> string list \<Rightarrow> world \<Rightarrow> response \<times> world" where
  "upload_after_read en file existingFilenames w =
            (case decode en of
               Inl e \<Rightarrow> (upload_failed e, w)
             | Inr inputImage \<Rightarrow>
            (case transcode en (file_size file) inputImage of
               Inl e \<Rightarrow> (upload_failed e, w)
             | Inr optimizedBuffer \<Rightarrow>
                 let filename = stored_filename existingFilenames (file_name file) (date_now en);
                     contentType = ''image/jpeg''
                 in
            (case s3_put (s3_put_fault en) filename
                    \<lparr>obj_body = optimizedBuffer, obj_content_type = contentType,
                     obj_acl = ''public-read''\<rparr> w of
               Inl e \<Rightarrow> (upload_failed e, w)
             | Inr w1 \<Rightarrow>
                 let bufferSize = jpeg_length optimizedBuffer;
                     url = ''https://asset.aoya-pottery.com/'' @ filename;
                     w2 = try_add_display_order (alter_fault en) w1;
                     newOrder = next_order (max_order_fault en) w2
                 in
            (case db_insert (insert_fault en)
                    \<lparr>row_id = random_uuid en, row_filename = filename, row_url = url,
                     row_size = bufferSize, row_content_type = Some contentType,
                     row_uploaded_at = now_iso en, row_display_order = Some newOrder\<rparr> w2 of
               Inl e \<Rightarrow> (upload_failed e, w2)
             | Inr w3 \<Rightarrow> (jsonResponse True ''File uploaded successfully'' 200, w3)))))"

definition in_flight_pair ::
  "env \<Rightarrow> form_data \<Rightarrow> env \<Rightarrow> form_data \<Rightarrow> world \<Rightarrow> response \<times> response \<times> world" where
  "in_flight_pair en1 fd1 en2 fd2 w =
     (let read1 = upload_read en1 fd1 w;
          read2 = upload_read en2 fd2 w;
          (r1, w1) = (case read1 of
                        Inl r \<Rightarrow> (r, w)
                      | Inr (file, names) \<Rightarrow> upload_after_read en1 file names w);
          (r2, w2) = (case read2 of
                        Inl r \<Rightarrow> (r, w1)
                      | Inr (file, names) \<Rightarrow> upload_after_read en2 file names w1)
      in (r1, r2, w2))"

subsection \<open>Dispatch on the intent\<close>

definition action :: "env \<Rightarrow> form_data \<Rightarrow> world \<Rightarrow> response \<times> world" where
  "action en fd w =
     (if fd_intent fd = Some ''reorder'' then reorder en fd w
      else if fd_intent fd = Some ''delete'' then delete_file en fd w
      else if fd_intent fd = Some ''upload'' then upload en fd w
      else (jsonResponse False ''Invalid action'' 400, w))"

section \<open>The loaders\<close>

text \<open>
  What a loader returns per row. The ordered statement selects
  \<^verbatim>\<open>COALESCE(display_order, 999999) as display_order\<close>; the fallback statement selects no
  such field.
\<close>

record listed_file =
  lf_id :: string
  lf_filename :: string
  lf_url :: string
  lf_size :: nat
  lf_uploaded_at :: string
  lf_display_order :: "int option"

definition coalesce_order :: "file_row \<Rightarrow> int" where
  "coalesce_order r = (case row_display_order r of None \<Rightarrow> 999999 | Some d \<Rightarrow> d)"

text \<open>
  \<^verbatim>\<open>ORDER BY display_order ASC, uploaded_at DESC\<close>, where \<^verbatim>\<open>display_order\<close> names the
  result column of that alias, and \<^verbatim>\<open>ORDER BY uploaded_at DESC\<close>. Text compares bytewise.
\<close>

definition ordered_before :: "file_row \<Rightarrow> file_row \<Rightarrow> bool" where
  "ordered_before a b \<longleftrightarrow>
     coalesce_order a < coalesce_order b \<or>
     (coalesce_order a = coalesce_order b \<and> row_uploaded_at b \<le> row_uploaded_at a)"

definition newest_before :: "file_row \<Rightarrow> file_row \<Rightarrow> bool" where
  "newest_before a b \<longleftrightarrow> row_uploaded_at b \<le> row_uploaded_at a"

text \<open>The engine's sort, as insertion into an ordered result.\<close>

fun insert_by :: "('a \<Rightarrow> 'a \<Rightarrow> bool) \<Rightarrow> 'a \<Rightarrow> 'a list \<Rightarrow> 'a list" where
  "insert_by le x [] = [x]"
| "insert_by le x (y # ys) = (if le x y then x # y # ys else y # insert_by le x ys)"

definition order_by :: "('a \<Rightarrow> 'a \<Rightarrow> bool) \<Rightarrow> 'a list \<Rightarrow> 'a list" where
  "order_by le xs = foldr (insert_by le) xs []"

text \<open>
  The same order read off the returned records; a record without the field counts as
  unordered.
\<close>

definition listed_key :: "listed_file \<Rightarrow> int" where
  "listed_key f = (case lf_display_order f of None \<Rightarrow> 999999 | Some d \<Rightarrow> d)"

definition listed_before :: "listed_file \<Rightarrow> listed_file \<Rightarrow> bool" where
  "listed_before a b \<longleftrightarrow>
     listed_key a < listed_key b \<or>
     (listed_key a = listed_key b \<and> lf_uploaded_at b \<le> lf_uploaded_at a)"

definition listed_newest_first :: "listed_file \<Rightarrow> listed_file \<Rightarrow> bool" where
  "listed_newest_first a b \<longleftrightarrow> lf_uploaded_at b \<le> lf_uploaded_at a"

definition project_ordered :: "file_row \<Rightarrow> listed_file" where
  "project_ordered r =
     \<lparr>lf_id = row_id r, lf_filename = row_filename r, lf_url = row_url r, lf_size = row_size r,
      lf_uploaded_at = row_uploaded_at r, lf_display_order = Some (coalesce_order r)\<rparr>"

definition project_plain :: "file_row \<Rightarrow> listed_file" where
  "project_plain r =
     \<lparr>lf_id = row_id r, lf_filename = row_filename r, lf_url = row_url r, lf_size = row_size r,
      lf_uploaded_at = row_uploaded_at r, lf_display_order = None\<rparr>"

definition db_select_ordered :: "thrown option \<Rightarrow> world \<Rightarrow> thrown + listed_file list" where
  "db_select_ordered fault w =
     (case fault of
        Some e \<Rightarrow> Inl e
      | None \<Rightarrow> if \<not> has_display_order w then Inl no_such_column
                else Inr (map project_ordered (order_by ordered_before (rows w))))"

definition db_select_by_uploaded_at :: "thrown option \<Rightarrow> world \<Rightarrow> thrown + listed_file list" where
  "db_select_by_uploaded_at fault w =
     (case fault of
        Some e \<Rightarrow> Inl e
      | None \<Rightarrow> Inr (map project_plain (order_by newest_before (rows w))))"

text \<open>The loader of the upload page (\<^verbatim>\<open>files\<close>) and of the home page (\<^verbatim>\<open>images\<close>).\<close>

definition loader :: "env \<Rightarrow> world \<Rightarrow> listed_file list" where
  "loader en w =
     (case db_select_ordered (ordered_query_fault en) w of
        Inr files \<Rightarrow> files
      | Inl error \<Rightarrow>
          (case db_select_by_uploaded_at (fallback_query_fault en) w of
             Inr files \<Rightarrow> files
           | Inl e \<Rightarrow> []))"

definition home_loader :: "env \<Rightarrow> world \<Rightarrow> listed_file list" where
  "home_loader en w =
     (case db_select_ordered (ordered_query_fault en) w of
        Inr images \<Rightarrow> images
      | Inl error \<Rightarrow>
          (case db_select_by_uploaded_at (fallback_query_fault en) w of
             Inr images \<Rightarrow> images
           | Inl e \<Rightarrow> []))"

section \<open>Example scenarios\<close>

text \<open>Concrete requests, environments and store contents at which the results below are run.\<close>

definition order_ab :: string where
  \<open>order_ab = ''[{"id":"a","order":2},{"id":"b","order":1}]''\<close>

definition example_parse :: "string \<Rightarrow> thrown + reorder_item list" where
  "example_parse s =
     (if s = order_ab
      then Inr [\<lparr>item_id = ''a'', item_order = 2\<rparr>, \<lparr>item_id = ''b'', item_order = 1\<rparr>]
      else if s = ''[]'' then Inr []
      else Inl (Error ''Unexpected token''))"

definition example_env :: env where
  "example_env =
     \<lparr>json_parse = example_parse, alter_fault = None, update_fault = (\<lambda>i. None),
      s3_delete_fault = None, db_delete_fault = None, select_filenames_fault = None,
      decode = Inr \<lparr>img_width = 2000, img_height = 1000\<rparr>,
      resize_fault = None, encode_fault = None, encoded_length = 345678,
      date_now = 1700000000000, s3_put_fault = None, max_order_fault = None,
      insert_fault = None, random_uuid = ''id-new'',
      now_iso = ''2025-03-01T10:00:00.000Z'',
      ordered_query_fault = None, fallback_query_fault = None\<rparr>"

definition example_jpeg :: jpeg where
  "example_jpeg =
     \<lparr>jpeg_width = 1920, jpeg_height = 1280, jpeg_quality = 75, jpeg_length = 1000\<rparr>"

definition example_object :: stored_object where
  "example_object =
     \<lparr>obj_body = example_jpeg, obj_content_type = ''image/jpeg'', obj_acl = ''public-read''\<rparr>"

definition example_row :: "string \<Rightarrow> string \<Rightarrow> string \<Rightarrow> int option \<Rightarrow> file_row" where
  "example_row ident name uploaded ord =
     \<lparr>row_id = ident, row_filename = name, row_url = ''https://asset.aoya-pottery.com/'' @ name,
      row_size = 1000, row_content_type = Some ''image/jpeg'', row_uploaded_at = uploaded,
      row_display_order = ord\<rparr>"

definition example_world :: world where
  "example_world =
     \<lparr>rows = [example_row ''a'' ''flower.jpg'' ''2025-01-01T10:00:00.000Z'' (Some 1),
              example_row ''b'' ''vase.jpg'' ''2025-01-02T10:00:00.000Z'' (Some 2)],
      has_display_order = True,
      bucket = [''flower.jpg'' \<mapsto> example_object, ''vase.jpg'' \<mapsto> example_object]\<rparr>"

text \<open>A table in which one row has a rank above the sentinel and one row has none.\<close>

definition late_world :: world where
  "late_world =
     \<lparr>rows = [example_row ''a'' ''flower.jpg'' ''2025-01-01T10:00:00.000Z'' (Some 1000000),
              example_row ''b'' ''vase.jpg'' ''2025-01-02T10:00:00.000Z'' None],
      has_display_order = True,
      bucket = [''flower.jpg'' \<mapsto> example_object, ''vase.jpg'' \<mapsto> example_object]\<rparr>"

text \<open>A table from before the column was added.\<close>

definition old_world :: world where
  "old_world =
     \<lparr>rows = [example_row ''a'' ''flower.jpg'' ''2025-01-01T10:00:00.000Z'' None,
              example_row ''b'' ''vase.jpg'' ''2025-01-02T10:00:00.000Z'' None],
      has_display_order = False,
      bucket = [''flower.jpg'' \<mapsto> example_object, ''vase.jpg'' \<mapsto> example_object]\<rparr>"

text \<open>A table with ranked and unranked rows in no particular order.\<close>

definition mixed_world :: world where
  "mixed_world =
     \<lparr>rows = [example_row ''a'' ''flower.jpg'' ''2025-01-01T10:00:00.000Z'' (Some 2),
              example_row ''b'' ''vase.jpg'' ''2025-01-02T10:00:00.000Z'' None,
              example_row ''c'' ''bowl.jpg'' ''2025-01-03T10:00:00.000Z'' (Some 1),
              example_row ''d'' ''cup.jpg'' ''2025-01-04T10:00:00.000Z'' None],
      has_display_order = True,
      bucket = Map.empty\<rparr>"

definition mixed_listing :: "listed_file list" where
  "mixed_listing =
     map project_ordered
       [example_row ''c'' ''bowl.jpg'' ''2025-01-03T10:00:00.000Z'' (Some 1),
        example_row ''a'' ''flower.jpg'' ''2025-01-01T10:00:00.000Z'' (Some 2),
        example_row ''d'' ''cup.jpg'' ''2025-01-04T10:00:00.000Z'' None,
        example_row ''b'' ''vase.jpg'' ''2025-01-02T10:00:00.000Z'' None]"

definition upload_request :: "upload_file \<Rightarrow> form_data" where
  "upload_request f =
     \<lparr>fd_intent = Some ''upload'', fd_order = None, fd_id = None, fd_filename = None,
      fd_file = Some f\<rparr>"

definition delete_request :: "string \<Rightarrow> string \<Rightarrow> form_data" where
  "delete_request ident name =
     \<lparr>fd_intent = Some ''delete'', fd_order = None, fd_id = Some ident,
      fd_filename = Some name, fd_file = None\<rparr>"

definition reorder_request :: "string option \<Rightarrow> form_data" where
  "reorder_request ord =
     \<lparr>fd_intent = Some ''reorder'', fd_order = ord, fd_id = None, fd_filename = None,
      fd_file = None\<rparr>"

text \<open>An 8 MB upload of a 2000 x 1000 image whose derived name is already taken.\<close>

definition flower_upload :: form_data where
  "flower_upload = upload_request \<lparr>file_name = ''flower.png'', file_size = 8388608\<rparr>"

definition flower_jpeg :: jpeg where
  "flower_jpeg = \<lparr>jpeg_width = 1920, jpeg_height = 960, jpeg_quality = 75, jpeg_length = 345678\<rparr>"

definition flower_row :: file_row where
  "flower_row =
     \<lparr>row_id = ''id-new'', row_filename = ''flower-1700000000000.jpg'',
      row_url = ''https://asset.aoya-pottery.com/flower-1700000000000.jpg'',
      row_size = 345678, row_content_type = Some ''image/jpeg'',
      row_uploaded_at = ''2025-03-01T10:00:00.000Z'', row_display_order = Some 3\<rparr>"


text \<open>A 1 MB upload of a 1920 x 4040 image: the scaled height falls on an exact half.\<close>

definition tall_image :: image where
  "tall_image = \<lparr>img_width = 1920, img_height = 4040\<rparr>"

definition tall_env :: env where
  "tall_env = example_env\<lparr>decode := Inr tall_image\<rparr>"

definition tall_upload :: form_data where
  "tall_upload = upload_request \<lparr>file_name = ''tall.png'', file_size = 1048576\<rparr>"

definition tall_jpeg :: jpeg where
  "tall_jpeg = \<lparr>jpeg_width = 1800, jpeg_height = 3787, jpeg_quality = 72, jpeg_length = 345678\<rparr>"


text \<open>A table whose largest rank is \<open>2 ^ 53\<close>.\<close>

definition big_world :: world where
  "big_world =
     \<lparr>rows = [example_row ''a'' ''flower.jpg'' ''2025-01-01T10:00:00.000Z'' (Some 1),
              example_row ''b'' ''vase.jpg'' ''2025-01-02T10:00:00.000Z''
                (Some 9007199254740992)],
      has_display_order = True,
      bucket = [''flower.jpg'' \<mapsto> example_object, ''vase.jpg'' \<mapsto> example_object]\<rparr>"

text \<open>An environment in which the \<^verbatim>\<open>SELECT MAX\<close> statement throws.\<close>

definition max_fault_env :: env where
  "max_fault_env = example_env\<lparr>max_order_fault := Some (Error ''D1_ERROR'')\<rparr>"

text \<open>
  Two files of one batch whose names differ only in the extension, neither name in the
  table; the second request has its own identifier and clock.
\<close>

definition bowl_png_upload :: form_data where
  "bowl_png_upload = upload_request \<lparr>file_name = ''bowl.png'', file_size = 8388608\<rparr>"

definition bowl_gif_upload :: form_data where
  "bowl_gif_upload = upload_request \<lparr>file_name = ''bowl.gif'', file_size = 8388608\<rparr>"

definition second_env :: env where
  "second_env = example_env\<lparr>random_uuid := ''id-new-2'', date_now := 1700000000001,
                              encoded_length := 222222\<rparr>"

text \<open>The rows, objects and store contents those two uploads leave behind.\<close>

definition bowl_row :: "string \<Rightarrow> nat \<Rightarrow> int \<Rightarrow> file_row" where
  "bowl_row ident len ord =
     \<lparr>row_id = ident, row_filename = ''bowl.jpg'',
      row_url = ''https://asset.aoya-pottery.com/bowl.jpg'',
      row_size = len, row_content_type = Some ''image/jpeg'',
      row_uploaded_at = ''2025-03-01T10:00:00.000Z'', row_display_order = Some ord\<rparr>"

definition bowl_object :: "nat \<Rightarrow> stored_object" where
  "bowl_object len =
     \<lparr>obj_body = flower_jpeg\<lparr>jpeg_length := len\<rparr>, obj_content_type = ''image/jpeg'',
      obj_acl = ''public-read''\<rparr>"

definition after_first :: world where
  "after_first =
     example_world\<lparr>rows := rows example_world @ [bowl_row ''id-new'' 345678 3],
                   bucket := (bucket example_world)(''bowl.jpg'' \<mapsto> bowl_object 345678)\<rparr>"

definition after_second :: world where
  "after_second =
     after_first\<lparr>rows := rows after_first @ [bowl_row ''id-new-2'' 222222 4],
                 bucket := (bucket after_first)(''bowl.jpg'' \<mapsto> bowl_object 222222)\<rparr>"


section \<open>Rejected requests\<close>

text \<open>
  Claim C1, as amended. An upload whose file is larger than \<open>50 * 1024 * 1024\<close> bytes is
  answered with status 400 (not 413) and the size-limit message, and neither store
  changes: no object is written and no row is inserted.
\<close>

theorem oversize_upload_rejected_400:
  assumes "fd_intent fd = Some ''upload''" and "fd_file fd = Some f"
    and "file_size f > maxFileSize"
  shows "action en fd w =
           (jsonResponse False ''File size exceeds 50MB limit. Please use a smaller image.'' 400, w)"
  using assms by (simp add: action_def upload_def)

theorem oversize_upload_rejected_400_witness:
  "action example_env (upload_request \<lparr>file_name = ''big.png'', file_size = 52428801\<rparr>)
     example_world =
     (\<lparr>status = 400, success = False,
       message = ''File size exceeds 50MB limit. Please use a smaller image.''\<rparr>, example_world)"
  using oversize_upload_rejected_400
          [of "upload_request \<lparr>file_name = ''big.png'', file_size = 52428801\<rparr>"
              "\<lparr>file_name = ''big.png'', file_size = 52428801\<rparr>" example_env example_world]
  by (simp add: upload_request_def maxFileSize_def jsonResponse_def)

text \<open>
  Claim C1 as stated asks for a 413-class status. A file one byte over the limit is
  answered with a status other than 413.
\<close>

theorem oversize_upload_status_counterexample:
  "file_size \<lparr>file_name = ''big.png'', file_size = 52428801\<rparr> > maxFileSize \<and>
   status (fst (action example_env
                  (upload_request \<lparr>file_name = ''big.png'', file_size = 52428801\<rparr>)
                  example_world)) \<noteq> 413"
  by (simp add: action_def upload_def upload_request_def maxFileSize_def jsonResponse_def)

text \<open>
  Claim C9. A reorder request whose \<^verbatim>\<open>order\<close> field is missing or is the empty string is
  answered with status 400, and neither store changes: no update is performed (and the
  column is not added).
\<close>

theorem reorder_without_order_rejected:
  assumes "fd_intent fd = Some ''reorder''" and "fd_order fd = None \<or> fd_order fd = Some []"
  shows "action en fd w = (jsonResponse False ''No order data provided'' 400, w)"
  using assms by (auto simp add: action_def reorder_def)

theorem reorder_without_order_rejected_witness:
  "action example_env (reorder_request None) example_world =
     (\<lparr>status = 400, success = False, message = ''No order data provided''\<rparr>, example_world) \<and>
   action example_env (reorder_request (Some [])) example_world =
     (\<lparr>status = 400, success = False, message = ''No order data provided''\<rparr>, example_world)"
  using reorder_without_order_rejected [of "reorder_request None" example_env example_world]
        reorder_without_order_rejected [of "reorder_request (Some [])" example_env example_world]
  by (simp add: reorder_request_def jsonResponse_def)

text \<open>
  Only the field itself is tested: an \<^verbatim>\<open>order\<close> field holding the text of an empty JSON
  array passes the guard and is answered with the success response.
\<close>

lemma reorder_empty_array_accepted:
  "action example_env (reorder_request (Some ''[]'')) example_world =
     (jsonResponse True ''Order updated successfully'' 200, example_world)"
  by (simp add: action_def reorder_def reorder_request_def example_env_def example_parse_def
      order_ab_def try_add_display_order_def db_add_display_order_def example_world_def)

section \<open>Reordering\<close>

lemma has_display_order_set [simp]:
  "has_display_order (set_display_order ord ident w) = has_display_order w"
  by (simp add: set_display_order_def)

lemma set_display_order_unknown:
  "ident \<notin> row_id ` set (rows w) \<Longrightarrow> set_display_order ord ident w = w"
proof -
  assume a: "ident \<notin> row_id ` set (rows w)"
  have "map (\<lambda>r. if row_id r = ident then r\<lparr>row_display_order := Some ord\<rparr> else r) (rows w) = rows w"
    using a by (intro map_idI) auto
  then show ?thesis by (simp add: set_display_order_def)
qed

lemma reorder_loop_all_ok:
  "has_display_order w \<Longrightarrow> \<forall>j<length items. uf (i + j) = None \<Longrightarrow>
   reorder_loop uf i items w = (None, apply_updates items w)"
proof (induction items arbitrary: i w)
  case Nil
  then show ?case by (simp add: apply_updates_def)
next
  case (Cons item items)
  have h0: "uf i = None" using Cons.prems(2) by (metis add.right_neutral length_greater_0_conv list.distinct(1))
  have hs: "\<forall>j<length items. uf (Suc i + j) = None"
    using Cons.prems(2) by (metis add_Suc_shift length_Cons not_less_eq)
  have "reorder_loop uf (Suc i) items (set_display_order (item_order item) (item_id item) w)
        = (None, apply_updates items (set_display_order (item_order item) (item_id item) w))"
    using Cons.IH [of "set_display_order (item_order item) (item_id item) w" "Suc i"] Cons.prems(1) hs
    by simp
  then show ?case
    using h0 Cons.prems(1) by (simp add: db_update_display_order_def apply_updates_def)
qed

lemma reorder_loop_first_failure:
  "has_display_order w \<Longrightarrow> k < length items \<Longrightarrow> \<forall>j<k. uf (i + j) = None \<Longrightarrow>
   uf (i + k) = Some e \<Longrightarrow>
   reorder_loop uf i items w = (Some e, apply_updates (take k items) w)"
proof (induction items arbitrary: i k w)
  case Nil
  then show ?case by simp
next
  case (Cons item items)
  show ?case
  proof (cases k)
    case 0
    then show ?thesis using Cons.prems by (simp add: db_update_display_order_def apply_updates_def)
  next
    case (Suc k')
    have h0: "uf i = None" using Cons.prems(3) Suc by (metis add.right_neutral zero_less_Suc)
    have hs: "\<forall>j<k'. uf (Suc i + j) = None"
      using Cons.prems(3) Suc by (metis add_Suc_shift not_less_eq)
    have he: "uf (Suc i + k') = Some e" using Cons.prems(4) Suc by simp
    have hk: "k' < length items" using Cons.prems(2) Suc by simp
    have "reorder_loop uf (Suc i) items (set_display_order (item_order item) (item_id item) w)
        = (Some e, apply_updates (take k' items) (set_display_order (item_order item) (item_id item) w))"
      using Cons.IH [of "set_display_order (item_order item) (item_id item) w" k' "Suc i"]
            Cons.prems(1) hs he hk by simp
    then show ?thesis
      using h0 Cons.prems(1) Suc by (simp add: db_update_display_order_def apply_updates_def)
  qed
qed

text \<open>
  Claim C7. With the order field parsed to \<open>items\<close> and the column present once the
  on-demand \<^verbatim>\<open>ALTER TABLE\<close> has been tried, the statements run one item at a time in
  the submitted order, without a transaction around them:
  \<^item> if no update throws, the answer is the success response and the store holds the
    effect of all updates, applied in order;
  \<^item> if update \<open>k\<close> is the first that throws, the answer is status 500 and the store
    holds exactly the effect of the \<open>k\<close> updates before it (they stay committed);
  \<^item> success is answered exactly when every update has run without throwing;
  \<^item> an update whose identifier matches no row does not throw and changes nothing.
\<close>

theorem reorder_one_at_a_time:
  assumes "fd_intent fd = Some ''reorder''" and "fd_order fd = Some s" and "s \<noteq> []"
    and "json_parse en s = Inr items"
    and "has_display_order (try_add_display_order (alter_fault en) w)"
  shows "((\<forall>j<length items. update_fault en j = None) \<longrightarrow>
            action en fd w =
              (jsonResponse True ''Order updated successfully'' 200,
               apply_updates items (try_add_display_order (alter_fault en) w))) \<and>
         (\<forall>k e. k < length items \<and> (\<forall>j<k. update_fault en j = None) \<and>
                 update_fault en k = Some e \<longrightarrow>
            action en fd w =
              (jsonResponse False ''Failed to update order'' 500,
               apply_updates (take k items) (try_add_display_order (alter_fault en) w))) \<and>
         (success (fst (action en fd w)) \<longleftrightarrow> (\<forall>j<length items. update_fault en j = None)) \<and>
         (\<forall>ord ident w'. has_display_order w' \<and> ident \<notin> row_id ` set (rows w') \<longrightarrow>
            db_update_display_order None ord ident w' = Inr w')"
proof -
  let ?w1 = "try_add_display_order (alter_fault en) w"
  have A: "(\<forall>j<length items. update_fault en j = None) \<Longrightarrow>
            action en fd w = (jsonResponse True ''Order updated successfully'' 200, apply_updates items ?w1)"
    using assms reorder_loop_all_ok [of ?w1 items "update_fault en" 0]
    by (simp add: action_def reorder_def)
  have B: "\<And>k e. k < length items \<Longrightarrow> (\<forall>j<k. update_fault en j = None) \<Longrightarrow>
                 update_fault en k = Some e \<Longrightarrow>
            action en fd w = (jsonResponse False ''Failed to update order'' 500, apply_updates (take k items) ?w1)"
    using assms reorder_loop_first_failure [of ?w1 _ items "update_fault en" 0]
    by (simp add: action_def reorder_def)
  have C: "success (fst (action en fd w)) \<longleftrightarrow> (\<forall>j<length items. update_fault en j = None)"
  proof
    assume s: "success (fst (action en fd w))"
    show "\<forall>j<length items. update_fault en j = None"
    proof (rule ccontr)
      assume "\<not> (\<forall>j<length items. update_fault en j = None)"
      then obtain j where j: "j < length items" "update_fault en j \<noteq> None" by blast
      define k where "k = (LEAST j. j < length items \<and> update_fault en j \<noteq> None)"
      have kk: "k < length items \<and> update_fault en k \<noteq> None"
        unfolding k_def using j by (intro LeastI [of "\<lambda>j. j < length items \<and> update_fault en j \<noteq> None" j]) simp
      have kl: "\<forall>i<k. update_fault en i = None"
        unfolding k_def using not_less_Least [of _ "\<lambda>j. j < length items \<and> update_fault en j \<noteq> None"] kk k_def
        by (metis (mono_tags, lifting) less_trans)
      from kk obtain e where "update_fault en k = Some e" by auto
      with B [of k e] kk kl have "action en fd w = (jsonResponse False ''Failed to update order'' 500, apply_updates (take k items) ?w1)" by simp
      with s show False by (simp add: jsonResponse_def)
    qed
  next
    assume "\<forall>j<length items. update_fault en j = None"
    with A show "success (fst (action en fd w))" by (simp add: jsonResponse_def)
  qed
  have D: "\<forall>ord ident w'. has_display_order w' \<and> ident \<notin> row_id ` set (rows w') \<longrightarrow>
            db_update_display_order None ord ident w' = Inr w'"
    by (simp add: db_update_display_order_def set_display_order_unknown)
  show ?thesis using A B C D by blast
qed

theorem reorder_one_at_a_time_witness:
  "action example_env (reorder_request (Some order_ab)) example_world =
     (\<lparr>status = 200, success = True, message = ''Order updated successfully''\<rparr>,
      example_world\<lparr>rows :=
        [example_row ''a'' ''flower.jpg'' ''2025-01-01T10:00:00.000Z'' (Some 2),
         example_row ''b'' ''vase.jpg'' ''2025-01-02T10:00:00.000Z'' (Some 1)]\<rparr>) \<and>
   action (example_env\<lparr>update_fault := (\<lambda>i. if i = 1 then Some (Error ''D1_ERROR'') else None)\<rparr>)
       (reorder_request (Some order_ab)) example_world =
     (\<lparr>status = 500, success = False, message = ''Failed to update order''\<rparr>,
      example_world\<lparr>rows :=
        [example_row ''a'' ''flower.jpg'' ''2025-01-01T10:00:00.000Z'' (Some 2),
         example_row ''b'' ''vase.jpg'' ''2025-01-02T10:00:00.000Z'' (Some 2)]\<rparr>)"
proof -
  let ?items = "[\<lparr>item_id = ''a'', item_order = 2\<rparr>, \<lparr>item_id = ''b'', item_order = 1\<rparr>]"
  let ?fenv = "example_env\<lparr>update_fault := (\<lambda>i. if i = 1 then Some (Error ''D1_ERROR'') else None)\<rparr>"
  have ne: "order_ab \<noteq> []" by (simp add: order_ab_def)
  have p1: "json_parse example_env order_ab = Inr ?items"
    by (simp add: example_env_def example_parse_def)
  have p2: "json_parse ?fenv order_ab = Inr ?items"
    by (simp add: example_env_def example_parse_def)
  have c1: "has_display_order (try_add_display_order (alter_fault example_env) example_world)"
    by (simp add: try_add_display_order_def db_add_display_order_def example_env_def
        example_world_def)
  have c2: "has_display_order (try_add_display_order (alter_fault ?fenv) example_world)"
    by (simp add: try_add_display_order_def db_add_display_order_def example_env_def
        example_world_def)
  have t1: "try_add_display_order (alter_fault example_env) example_world = example_world"
    by (simp add: try_add_display_order_def db_add_display_order_def example_env_def
        example_world_def)
  have t2: "try_add_display_order (alter_fault ?fenv) example_world = example_world"
    by (simp add: try_add_display_order_def db_add_display_order_def example_env_def
        example_world_def)
  have ok: "\<forall>j<length ?items. update_fault example_env j = None"
    by (simp add: example_env_def)
  have a1: "action example_env (reorder_request (Some order_ab)) example_world =
      (jsonResponse True ''Order updated successfully'' 200, apply_updates ?items example_world)"
    using reorder_one_at_a_time
            [of "reorder_request (Some order_ab)" order_ab example_env ?items example_world,
             OF _ _ ne p1 c1] ok t1
    by (simp add: reorder_request_def)
  have pre: "(1::nat) < length ?items \<and> (\<forall>j<1. update_fault ?fenv j = None) \<and>
             update_fault ?fenv 1 = Some (Error ''D1_ERROR'')"
    by simp
  have B: "\<forall>k e. k < length ?items \<and> (\<forall>j<k. update_fault ?fenv j = None) \<and>
                 update_fault ?fenv k = Some e \<longrightarrow>
            action ?fenv (reorder_request (Some order_ab)) example_world =
              (jsonResponse False ''Failed to update order'' 500,
               apply_updates (take k ?items) (try_add_display_order (alter_fault ?fenv) example_world))"
    using reorder_one_at_a_time
            [of "reorder_request (Some order_ab)" order_ab ?fenv ?items example_world,
             OF _ _ ne p2 c2]
    by (simp add: reorder_request_def)
  have a2: "action ?fenv (reorder_request (Some order_ab)) example_world =
      (jsonResponse False ''Failed to update order'' 500,
       apply_updates (take 1 ?items) example_world)"
    using B [rule_format, of 1 "Error ''D1_ERROR''"] pre t2 by simp
  show ?thesis
    unfolding a1 a2
    by (simp add: jsonResponse_def apply_updates_def set_display_order_def example_world_def
        example_row_def)
qed

section \<open>Deleting\<close>

lemma s3_delete_Inr:
  "s3_delete f key w = Inr w1 \<Longrightarrow>
   \<exists>k. key = Some k \<and> k \<noteq> [] \<and> f = None \<and> w1 = w\<lparr>bucket := (bucket w)(k := None)\<rparr>"
  by (cases f; cases key) (auto simp add: s3_delete_def split: if_splits)

lemma db_delete_Inr:
  "db_delete f ident w = Inr w2 \<Longrightarrow>
   f = None \<and> w2 = w\<lparr>rows := filter (\<lambda>r. Some (row_id r) \<noteq> ident) (rows w)\<rparr>"
  by (cases f) (auto simp add: db_delete_def)

text \<open>
  Claim C6. The object is deleted first, the row second. When deleting the object throws,
  the answer is status 500 and both stores are as before: the row is retained and its
  deletion is never tried. When the object has been deleted and deleting the row throws,
  the answer is status 500, the table is unchanged (the row persists) and the object is
  gone from the bucket: nothing is rolled back. When neither throws, the answer is the
  success response, the object is gone and the rows with the given identifier are deleted.
\<close>

theorem delete_object_then_row:
  assumes "fd_intent fd = Some ''delete''"
  shows "(\<forall>e. s3_delete (s3_delete_fault en) (fd_filename fd) w = Inl e \<longrightarrow>
            action en fd w = (jsonResponse False ''Failed to delete file'' 500, w)) \<and>
         (\<forall>w1 e. s3_delete (s3_delete_fault en) (fd_filename fd) w = Inr w1 \<and>
                  db_delete (db_delete_fault en) (fd_id fd) w1 = Inl e \<longrightarrow>
            action en fd w = (jsonResponse False ''Failed to delete file'' 500, w1) \<and>
            rows w1 = rows w \<and> has_display_order w1 = has_display_order w \<and>
            (\<exists>k. fd_filename fd = Some k \<and> bucket w1 = (bucket w)(k := None))) \<and>
         (\<forall>w1 w2. s3_delete (s3_delete_fault en) (fd_filename fd) w = Inr w1 \<and>
                   db_delete (db_delete_fault en) (fd_id fd) w1 = Inr w2 \<longrightarrow>
            action en fd w = (jsonResponse True ''File deleted successfully'' 200, w2) \<and>
            rows w2 = filter (\<lambda>r. Some (row_id r) \<noteq> fd_id fd) (rows w) \<and>
            has_display_order w2 = has_display_order w \<and>
            (\<exists>k. fd_filename fd = Some k \<and> bucket w2 = (bucket w)(k := None)))"
proof -
  have act: "action en fd w = delete_file en fd w"
    using assms by (simp add: action_def)
  have first: "\<And>e. s3_delete (s3_delete_fault en) (fd_filename fd) w = Inl e \<Longrightarrow>
      action en fd w = (jsonResponse False ''Failed to delete file'' 500, w)"
    by (simp add: act delete_file_def)
  have second: "\<And>w1 e. s3_delete (s3_delete_fault en) (fd_filename fd) w = Inr w1 \<Longrightarrow>
      db_delete (db_delete_fault en) (fd_id fd) w1 = Inl e \<Longrightarrow>
      action en fd w = (jsonResponse False ''Failed to delete file'' 500, w1)"
    by (simp add: act delete_file_def)
  have gone: "\<And>w1. s3_delete (s3_delete_fault en) (fd_filename fd) w = Inr w1 \<Longrightarrow>
      rows w1 = rows w \<and> has_display_order w1 = has_display_order w \<and>
      (\<exists>k. fd_filename fd = Some k \<and> bucket w1 = (bucket w)(k := None))"
  proof -
    fix w1
    assume "s3_delete (s3_delete_fault en) (fd_filename fd) w = Inr w1"
    from s3_delete_Inr [OF this]
    obtain k where "fd_filename fd = Some k" "w1 = w\<lparr>bucket := (bucket w)(k := None)\<rparr>"
      by blast
    then show "rows w1 = rows w \<and> has_display_order w1 = has_display_order w \<and>
      (\<exists>k. fd_filename fd = Some k \<and> bucket w1 = (bucket w)(k := None))"
      by simp
  qed
  have both: "\<And>w1 w2. s3_delete (s3_delete_fault en) (fd_filename fd) w = Inr w1 \<Longrightarrow>
      db_delete (db_delete_fault en) (fd_id fd) w1 = Inr w2 \<Longrightarrow>
      action en fd w = (jsonResponse True ''File deleted successfully'' 200, w2) \<and>
      rows w2 = filter (\<lambda>r. Some (row_id r) \<noteq> fd_id fd) (rows w) \<and>
      has_display_order w2 = has_display_order w \<and>
      (\<exists>k. fd_filename fd = Some k \<and> bucket w2 = (bucket w)(k := None))"
  proof -
    fix w1 w2
    assume s: "s3_delete (s3_delete_fault en) (fd_filename fd) w = Inr w1"
      and d: "db_delete (db_delete_fault en) (fd_id fd) w1 = Inr w2"
    have w2: "w2 = w1\<lparr>rows := filter (\<lambda>r. Some (row_id r) \<noteq> fd_id fd) (rows w1)\<rparr>"
      using db_delete_Inr [OF d] by simp
    have a: "action en fd w = (jsonResponse True ''File deleted successfully'' 200, w2)"
      using s d by (simp add: act delete_file_def)
    show "action en fd w = (jsonResponse True ''File deleted successfully'' 200, w2) \<and>
      rows w2 = filter (\<lambda>r. Some (row_id r) \<noteq> fd_id fd) (rows w) \<and>
      has_display_order w2 = has_display_order w \<and>
      (\<exists>k. fd_filename fd = Some k \<and> bucket w2 = (bucket w)(k := None))"
      using a w2 gone [OF s] by simp
  qed
  show ?thesis
  proof (intro conjI allI impI)
    fix e assume "s3_delete (s3_delete_fault en) (fd_filename fd) w = Inl e"
    then show "action en fd w = (jsonResponse False ''Failed to delete file'' 500, w)"
      by (rule first)
  next
    fix w1 e
    assume a: "s3_delete (s3_delete_fault en) (fd_filename fd) w = Inr w1 \<and>
               db_delete (db_delete_fault en) (fd_id fd) w1 = Inl e"
    show "action en fd w = (jsonResponse False ''Failed to delete file'' 500, w1)"
      using a second by blast
    show "rows w1 = rows w" using a gone by blast
    show "has_display_order w1 = has_display_order w" using a gone by blast
    show "\<exists>k. fd_filename fd = Some k \<and> bucket w1 = (bucket w)(k := None)"
      using a gone by blast
  next
    fix w1 w2
    assume a: "s3_delete (s3_delete_fault en) (fd_filename fd) w = Inr w1 \<and>
               db_delete (db_delete_fault en) (fd_id fd) w1 = Inr w2"
    show "action en fd w = (jsonResponse True ''File deleted successfully'' 200, w2)"
      using a both by blast
    show "rows w2 = filter (\<lambda>r. Some (row_id r) \<noteq> fd_id fd) (rows w)"
      using a both by blast
    show "has_display_order w2 = has_display_order w" using a both by blast
    show "\<exists>k. fd_filename fd = Some k \<and> bucket w2 = (bucket w)(k := None)"
      using a both by blast
  qed
qed

theorem delete_object_then_row_witness:
  "action (example_env\<lparr>s3_delete_fault := Some (Error ''connection reset'')\<rparr>)
       (delete_request ''a'' ''flower.jpg'') example_world =
     (\<lparr>status = 500, success = False, message = ''Failed to delete file''\<rparr>, example_world) \<and>
   action (example_env\<lparr>db_delete_fault := Some (Error ''D1_ERROR'')\<rparr>)
       (delete_request ''a'' ''flower.jpg'') example_world =
     (\<lparr>status = 500, success = False, message = ''Failed to delete file''\<rparr>,
      example_world\<lparr>bucket := (bucket example_world)(''flower.jpg'' := None)\<rparr>) \<and>
   action example_env (delete_request ''a'' ''flower.jpg'') example_world =
     (\<lparr>status = 200, success = True, message = ''File deleted successfully''\<rparr>,
      example_world\<lparr>rows := [example_row ''b'' ''vase.jpg'' ''2025-01-02T10:00:00.000Z'' (Some 2)],
                    bucket := (bucket example_world)(''flower.jpg'' := None)\<rparr>)"
proof -
  let ?fd = "delete_request ''a'' ''flower.jpg''"
  let ?e1 = "example_env\<lparr>s3_delete_fault := Some (Error ''connection reset'')\<rparr>"
  let ?e2 = "example_env\<lparr>db_delete_fault := Some (Error ''D1_ERROR'')\<rparr>"
  let ?w1 = "example_world\<lparr>bucket := (bucket example_world)(''flower.jpg'' := None)\<rparr>"
  have i: "fd_intent ?fd = Some ''delete''" by (simp add: delete_request_def)
  have s1: "s3_delete (s3_delete_fault ?e1) (fd_filename ?fd) example_world
              = Inl (Error ''connection reset'')"
    by (simp add: s3_delete_def)
  have s2: "s3_delete (s3_delete_fault ?e2) (fd_filename ?fd) example_world = Inr ?w1"
    by (simp add: s3_delete_def example_env_def delete_request_def)
  have d2: "db_delete (db_delete_fault ?e2) (fd_id ?fd) ?w1 = Inl (Error ''D1_ERROR'')"
    by (simp add: db_delete_def)
  have r1: "action ?e1 ?fd example_world = (jsonResponse False ''Failed to delete file'' 500, example_world)"
    using delete_object_then_row [OF i, of ?e1 example_world] s1 by blast
  have r2: "action ?e2 ?fd example_world = (jsonResponse False ''Failed to delete file'' 500, ?w1)"
    using delete_object_then_row [OF i, of ?e2 example_world] s2 d2 by blast
  let ?w2 = "example_world\<lparr>rows := [example_row ''b'' ''vase.jpg'' ''2025-01-02T10:00:00.000Z'' (Some 2)],
                    bucket := (bucket example_world)(''flower.jpg'' := None)\<rparr>"
  have s3: "s3_delete (s3_delete_fault example_env) (fd_filename ?fd) example_world = Inr ?w1"
    by (simp add: s3_delete_def example_env_def delete_request_def)
  have d3: "db_delete (db_delete_fault example_env) (fd_id ?fd) ?w1 = Inr ?w2"
    by (simp add: db_delete_def example_env_def delete_request_def example_world_def
        example_row_def)
  have r3: "action example_env ?fd example_world =
              (jsonResponse True ''File deleted successfully'' 200, ?w2)"
    using delete_object_then_row [OF i, of example_env example_world] s3 d3 by blast
  show ?thesis unfolding r1 r2 r3 by (simp add: jsonResponse_def)
qed

text \<open>
  Claim C10. When neither deletion throws, the answer is the success response whatever
  the identifier: the rows deleted are those whose \<^verbatim>\<open>id\<close> is the given one (none, when
  it matches no row, and then the table is unchanged), and the object deleted is the one
  under the given filename; nothing relates the two.
\<close>

theorem delete_success_without_matching_row:
  assumes "fd_intent fd = Some ''delete''"
    and "s3_delete (s3_delete_fault en) (fd_filename fd) w = Inr w1"
    and "db_delete (db_delete_fault en) (fd_id fd) w1 = Inr w2"
  shows "action en fd w = (jsonResponse True ''File deleted successfully'' 200, w2) \<and>
         rows w2 = filter (\<lambda>r. Some (row_id r) \<noteq> fd_id fd) (rows w) \<and>
         (fd_id fd \<notin> Some ` row_id ` set (rows w) \<longrightarrow> rows w2 = rows w) \<and>
         (\<exists>k. fd_filename fd = Some k \<and> bucket w2 = (bucket w)(k := None))"
proof -
  obtain k where k: "fd_filename fd = Some k" "w1 = w\<lparr>bucket := (bucket w)(k := None)\<rparr>"
    using s3_delete_Inr [OF assms(2)] by blast
  have w2: "w2 = w1\<lparr>rows := filter (\<lambda>r. Some (row_id r) \<noteq> fd_id fd) (rows w1)\<rparr>"
    using db_delete_Inr [OF assms(3)] by simp
  have keep: "fd_id fd \<notin> Some ` row_id ` set (rows w) \<Longrightarrow>
        filter (\<lambda>r. Some (row_id r) \<noteq> fd_id fd) (rows w) = rows w"
    by (rule filter_True) force
  have act: "action en fd w = (jsonResponse True ''File deleted successfully'' 200, w2)"
    using assms by (simp add: action_def delete_file_def)
  show ?thesis using act k w2 keep by simp
qed

theorem delete_success_without_matching_row_witness:
  "action example_env (delete_request ''zzz'' ''flower.jpg'') example_world =
     (\<lparr>status = 200, success = True, message = ''File deleted successfully''\<rparr>,
      example_world\<lparr>bucket := (bucket example_world)(''flower.jpg'' := None)\<rparr>)"
proof -
  let ?w1 = "example_world\<lparr>bucket := (bucket example_world)(''flower.jpg'' := None)\<rparr>"
  have s: "s3_delete (s3_delete_fault example_env) (fd_filename (delete_request ''zzz'' ''flower.jpg''))
             example_world = Inr ?w1"
    by (simp add: s3_delete_def example_env_def delete_request_def)
  have d: "db_delete (db_delete_fault example_env) (fd_id (delete_request ''zzz'' ''flower.jpg'')) ?w1
             = Inr ?w1"
    by (simp add: db_delete_def example_env_def delete_request_def example_world_def example_row_def)
  show ?thesis
    using delete_success_without_matching_row [OF _ s d]
    by (simp add: delete_request_def jsonResponse_def)
qed

section \<open>Reading the gallery\<close>

lemma set_insert_by [simp]: "set (insert_by le x xs) = insert x (set xs)"
  by (induction xs) auto

lemma mset_insert_by [simp]: "mset (insert_by le x xs) = add_mset x (mset xs)"
  by (induction xs) auto

lemma mset_order_by: "mset (order_by le xs) = mset xs"
  by (induction xs) (simp_all add: order_by_def)

lemma sorted_insert_by:
  assumes tot: "\<And>a b. le a b \<or> le b a" and tr: "\<And>a b c. le a b \<Longrightarrow> le b c \<Longrightarrow> le a c"
  shows "sorted_wrt le xs \<Longrightarrow> sorted_wrt le (insert_by le x xs)"
proof (induction xs)
  case Nil
  then show ?case by simp
next
  case (Cons y ys)
  show ?case
  proof (cases "le x y")
    case True
    then show ?thesis using Cons.prems tr by auto
  next
    case False
    then have "le y x" using tot by blast
    then show ?thesis using False Cons by auto
  qed
qed

lemma sorted_order_by:
  assumes tot: "\<And>a b. le a b \<or> le b a" and tr: "\<And>a b c. le a b \<Longrightarrow> le b c \<Longrightarrow> le a c"
  shows "sorted_wrt le (order_by le xs)"
proof (induction xs)
  case Nil
  then show ?case by (simp add: order_by_def)
next
  case (Cons x xs)
  have "order_by le (x # xs) = insert_by le x (order_by le xs)" by (simp add: order_by_def)
  then show ?case using sorted_insert_by [of le "order_by le xs" x] tot tr Cons by auto
qed

lemma sorted_ordered_before: "sorted_wrt ordered_before (order_by ordered_before rs)"
proof (rule sorted_order_by)
  show "\<And>a b. ordered_before a b \<or> ordered_before b a"
    by (auto simp add: ordered_before_def)
  show "\<And>a b c. ordered_before a b \<Longrightarrow> ordered_before b c \<Longrightarrow> ordered_before a c"
    by (auto simp add: ordered_before_def)
qed

lemma sorted_newest_before: "sorted_wrt newest_before (order_by newest_before rs)"
proof (rule sorted_order_by)
  show "\<And>a b. newest_before a b \<or> newest_before b a"
    by (auto simp add: newest_before_def)
  show "\<And>a b c. newest_before a b \<Longrightarrow> newest_before b c \<Longrightarrow> newest_before a c"
    by (auto simp add: newest_before_def)
qed

lemma listed_before_project:
  "listed_before (project_ordered a) (project_ordered b) = ordered_before a b"
  by (simp add: listed_before_def listed_key_def project_ordered_def ordered_before_def)

lemma listed_newest_project:
  "listed_newest_first (project_plain a) (project_plain b) = newest_before a b"
  by (simp add: listed_newest_first_def project_plain_def newest_before_def)

lemma sorted_listed_ordered:
  "sorted_wrt listed_before (map project_ordered (order_by ordered_before rs))"
  using sorted_ordered_before [of rs]
  by (simp add: sorted_wrt_map listed_before_project)

lemma sorted_listed_plain:
  "sorted_wrt listed_newest_first (map project_plain (order_by newest_before rs))"
  using sorted_newest_before [of rs]
  by (simp add: sorted_wrt_map listed_newest_project)

lemma db_select_ordered_Inr:
  "db_select_ordered f w = Inr out \<Longrightarrow>
   out = map project_ordered (order_by ordered_before (rows w))"
  by (cases f) (auto simp add: db_select_ordered_def split: if_splits)

lemma db_select_by_uploaded_at_Inr:
  "db_select_by_uploaded_at f w = Inr out \<Longrightarrow>
   out = map project_plain (order_by newest_before (rows w))"
  by (cases f) (auto simp add: db_select_by_uploaded_at_def)

text \<open>
  Claim C5, as amended. When the ordered statement is answered, both loaders return its
  result: the rows of the table (each exactly once), with a missing \<^verbatim>\<open>display_order\<close>
  replaced by 999999, sorted by that value ascending and, among equal values, by
  \<^verbatim>\<open>uploaded_at\<close> descending. Hence an unranked row comes after every row whose rank is
  below 999999; nothing is said about ranks above it.
\<close>

theorem gallery_sorted_by_coalesced_order:
  assumes "db_select_ordered (ordered_query_fault en) w = Inr out"
  shows "loader en w = out \<and> home_loader en w = out \<and>
         mset out = mset (map project_ordered (rows w)) \<and>
         (\<forall>r\<in>set (rows w). lf_display_order (project_ordered r) =
             Some (case row_display_order r of None \<Rightarrow> 999999 | Some d \<Rightarrow> d)) \<and>
         sorted_wrt listed_before out \<and>
         (\<forall>i j. i < j \<and> j < length out \<longrightarrow>
            listed_key (out ! i) < listed_key (out ! j) \<or>
            (listed_key (out ! i) = listed_key (out ! j) \<and>
             lf_uploaded_at (out ! j) \<le> lf_uploaded_at (out ! i))) \<and>
         (\<forall>i j. i < length out \<and> j < length out \<and>
                listed_key (out ! i) = 999999 \<and> listed_key (out ! j) < 999999 \<longrightarrow> j < i)"
proof -
  have out: "out = map project_ordered (order_by ordered_before (rows w))"
    using assms by (rule db_select_ordered_Inr)
  have l: "loader en w = out" "home_loader en w = out"
    using assms by (simp_all add: loader_def home_loader_def)
  have m: "mset out = mset (map project_ordered (rows w))"
    by (simp add: out mset_order_by)
  have p: "\<forall>r\<in>set (rows w). lf_display_order (project_ordered r) =
             Some (case row_display_order r of None \<Rightarrow> 999999 | Some d \<Rightarrow> d)"
    by (simp add: project_ordered_def coalesce_order_def)
  have s: "sorted_wrt listed_before out"
    unfolding out by (rule sorted_listed_ordered)
  have n: "\<forall>i j. i < j \<and> j < length out \<longrightarrow>
            listed_key (out ! i) < listed_key (out ! j) \<or>
            (listed_key (out ! i) = listed_key (out ! j) \<and>
             lf_uploaded_at (out ! j) \<le> lf_uploaded_at (out ! i))"
    using s by (simp add: sorted_wrt_iff_nth_less listed_before_def)
  have u: "\<forall>i j. i < length out \<and> j < length out \<and>
                listed_key (out ! i) = 999999 \<and> listed_key (out ! j) < 999999 \<longrightarrow> j < i"
  proof (intro allI impI)
    fix i j
    assume a: "i < length out \<and> j < length out \<and>
                listed_key (out ! i) = 999999 \<and> listed_key (out ! j) < 999999"
    show "j < i"
    proof (rule ccontr)
      assume "\<not> j < i"
      then have "i < j \<or> i = j" by arith
      then show False
      proof
        assume "i < j"
        then have "listed_key (out ! i) \<le> listed_key (out ! j)" using n a by force
        then show False using a by linarith
      next
        assume "i = j"
        then show False using a by auto
      qed
    qed
  qed
  show ?thesis using l m p s n u by blast
qed

theorem gallery_sorted_by_coalesced_order_witness:
  "loader example_env mixed_world = mixed_listing \<and>
   home_loader example_env mixed_world = mixed_listing \<and>
   map lf_id mixed_listing = [''c'', ''a'', ''d'', ''b''] \<and>
   map lf_display_order mixed_listing = [Some 1, Some 2, Some 999999, Some 999999] \<and>
   sorted_wrt listed_before mixed_listing"
proof -
  have q: "db_select_ordered (ordered_query_fault example_env) mixed_world = Inr mixed_listing"
    by (simp add: db_select_ordered_def example_env_def mixed_world_def mixed_listing_def
        order_by_def ordered_before_def coalesce_order_def example_row_def)
  have ids: "map lf_id mixed_listing = [''c'', ''a'', ''d'', ''b'']"
    by (simp add: mixed_listing_def project_ordered_def example_row_def)
  have ords: "map lf_display_order mixed_listing = [Some 1, Some 2, Some 999999, Some 999999]"
    by (simp add: mixed_listing_def project_ordered_def example_row_def coalesce_order_def)
  show ?thesis
    using gallery_sorted_by_coalesced_order [OF q] ids ords by simp
qed

text \<open>
  Claim C5 as stated has unranked rows sort last. With a row ranked 1000000 and an unranked
  row, the unranked row is listed first.
\<close>

theorem unordered_row_not_last_counterexample:
  "map row_id (rows late_world) = [''a'', ''b''] \<and>
   map row_display_order (rows late_world) = [Some 1000000, None] \<and>
   map lf_id (loader example_env late_world) = [''b'', ''a''] \<and>
   map lf_id (home_loader example_env late_world) = [''b'', ''a'']"
  by (simp add: loader_def home_loader_def db_select_ordered_def example_env_def late_world_def
      order_by_def ordered_before_def coalesce_order_def example_row_def project_ordered_def)

text \<open>
  Claim C8. Without the column the ordered statement throws. Whenever it throws, the
  loaders run the fallback statement: if that is answered they return its result, the
  rows sorted by \<^verbatim>\<open>uploaded_at\<close> descending only; if that throws too they return the
  empty list.
\<close>

theorem gallery_fallback:
  "(\<not> has_display_order w \<longrightarrow> (\<exists>e. db_select_ordered (ordered_query_fault en) w = Inl e)) \<and>
   (\<forall>e. db_select_ordered (ordered_query_fault en) w = Inl e \<longrightarrow>
      (\<forall>out. db_select_by_uploaded_at (fallback_query_fault en) w = Inr out \<longrightarrow>
         loader en w = out \<and> home_loader en w = out \<and>
         mset out = mset (map project_plain (rows w)) \<and>
         sorted_wrt listed_newest_first out) \<and>
      (\<forall>e'. db_select_by_uploaded_at (fallback_query_fault en) w = Inl e' \<longrightarrow>
         loader en w = [] \<and> home_loader en w = []))"
proof (intro conjI allI impI)
  assume "\<not> has_display_order w"
  then show "\<exists>e. db_select_ordered (ordered_query_fault en) w = Inl e"
    by (cases "ordered_query_fault en") (simp_all add: db_select_ordered_def)
next
  fix e out
  assume p: "db_select_ordered (ordered_query_fault en) w = Inl e"
    and f: "db_select_by_uploaded_at (fallback_query_fault en) w = Inr out"
  have out: "out = map project_plain (order_by newest_before (rows w))"
    using f by (rule db_select_by_uploaded_at_Inr)
  show "loader en w = out" using p f by (simp add: loader_def)
  show "home_loader en w = out" using p f by (simp add: home_loader_def)
  show "mset out = mset (map project_plain (rows w))" by (simp add: out mset_order_by)
  show "sorted_wrt listed_newest_first out" unfolding out by (rule sorted_listed_plain)
next
  fix e e'
  assume p: "db_select_ordered (ordered_query_fault en) w = Inl e"
    and f: "db_select_by_uploaded_at (fallback_query_fault en) w = Inl e'"
  show "loader en w = []" using p f by (simp add: loader_def)
  show "home_loader en w = []" using p f by (simp add: home_loader_def)
qed


theorem gallery_fallback_witness:
  "map lf_id (loader example_env old_world) = [''b'', ''a''] \<and>
   map lf_id (home_loader example_env old_world) = [''b'', ''a''] \<and>
   map lf_display_order (loader example_env old_world) = [None, None] \<and>
   loader (example_env\<lparr>fallback_query_fault := Some (Error ''D1_ERROR'')\<rparr>) old_world = [] \<and>
   home_loader (example_env\<lparr>fallback_query_fault := Some (Error ''D1_ERROR'')\<rparr>) old_world = []"
proof -
  let ?out = "map project_plain
       [example_row ''b'' ''vase.jpg'' ''2025-01-02T10:00:00.000Z'' None,
        example_row ''a'' ''flower.jpg'' ''2025-01-01T10:00:00.000Z'' None]"
  let ?fenv = "example_env\<lparr>fallback_query_fault := Some (Error ''D1_ERROR'')\<rparr>"
  have p: "db_select_ordered (ordered_query_fault example_env) old_world = Inl no_such_column"
    by (simp add: db_select_ordered_def example_env_def old_world_def)
  have p': "db_select_ordered (ordered_query_fault ?fenv) old_world = Inl no_such_column"
    by (simp add: db_select_ordered_def example_env_def old_world_def)
  have f: "db_select_by_uploaded_at (fallback_query_fault example_env) old_world = Inr ?out"
    by (simp add: db_select_by_uploaded_at_def example_env_def old_world_def order_by_def
        newest_before_def example_row_def)
  have f': "db_select_by_uploaded_at (fallback_query_fault ?fenv) old_world = Inl (Error ''D1_ERROR'')"
    by (simp add: db_select_by_uploaded_at_def)
  have a: "loader example_env old_world = ?out \<and> home_loader example_env old_world = ?out"
    using gallery_fallback [of old_world example_env] p f by blast
  have b: "loader ?fenv old_world = [] \<and> home_loader ?fenv old_world = []"
    using gallery_fallback [of old_world ?fenv] p' f' by blast
  show ?thesis using a b by (simp add: project_plain_def example_row_def)
qed

section \<open>Ranks as JavaScript numbers\<close>

text \<open>
  Integers of magnitude up to \<open>2 ^ 53\<close> are doubles, so reading such a rank and adding 1
  to a rank below \<open>2 ^ 53\<close> is exact; \<open>2 ^ 53 + 1\<close> is not a double and rounds back to
  \<open>2 ^ 53\<close>.
\<close>

lemma bit_length_bounds:
  "0 < n \<Longrightarrow> 2 ^ (bit_length n - 1) \<le> n \<and> n < 2 ^ bit_length n"
proof (induction n rule: bit_length.induct)
  case (1 n)
  show ?case
  proof (cases "n div 2 = 0")
    case True
    then have "n = 1" using "1.prems" by presburger
    then show ?thesis by (simp add: bit_length.simps)
  next
    case False
    then have h: "0 < n div 2" by simp
    have ih: "2 ^ (bit_length (n div 2) - 1) \<le> n div 2 \<and> n div 2 < 2 ^ bit_length (n div 2)"
      using "1.IH" "1.prems" h by simp
    have bl: "bit_length n = Suc (bit_length (n div 2))"
      using "1.prems" by (subst bit_length.simps) simp
    have pos: "0 < bit_length (n div 2)"
      using h by (subst bit_length.simps) simp
    then have sp: "(2::nat) ^ bit_length (n div 2) = 2 * 2 ^ (bit_length (n div 2) - 1)"
      by (cases "bit_length (n div 2)") simp_all
    have lo: "2 * 2 ^ (bit_length (n div 2) - 1) \<le> n" using ih by presburger
    have hi: "n < 2 * 2 ^ bit_length (n div 2)" using ih by presburger
    show ?thesis using lo hi sp bl by simp
  qed
qed


lemma bit_length_one: "bit_length (Suc 0) = Suc 0"
  by (simp add: bit_length.simps)

lemma bit_length_le_53:
  assumes "n < 2 ^ 53"
  shows "bit_length n \<le> 53"
proof (cases "n = 0")
  case True
  then show ?thesis by (simp add: bit_length.simps)
next
  case False
  then have "2 ^ (bit_length n - 1) \<le> n" using bit_length_bounds [of n] by simp
  then have "(2::nat) ^ (bit_length n - 1) < 2 ^ 53" using assms by linarith
  then have "bit_length n - 1 < 53" by (simp only: power_strict_increasing_iff) 
  then show ?thesis by simp
qed

lemma ilog2_frac_one_le:
  assumes "n < 2 ^ 53"
  shows "ilog2_frac n 1 \<le> 52"
proof -
  have "ilog2_frac n 1 \<le> int (bit_length n) - int (bit_length 1)"
    by (simp add: ilog2_frac_def Let_def)
  then show ?thesis using bit_length_le_53 [OF assms] by (simp add: bit_length_one)
qed

lemma round_half_even_one: "round_half_even n (Suc 0) = n"
  by (simp add: round_half_even_def)

lemma number_of_nat_small:
  assumes "n < 2 ^ 53"
  shows "number_of_nat n = n"
proof (cases "n = 0")
  case True
  then show ?thesis by (simp add: number_of_nat_def round53_def math_round_def)
next
  case False
  define sh where "sh = 52 - ilog2_frac n 1"
  have sh: "0 \<le> sh" using ilog2_frac_one_le [OF assms] by (simp add: sh_def)
  have r: "round53 n (Suc 0) = \<lparr>mant = n * 2 ^ nat sh, expo = - sh\<rparr>"
    using False sh by (simp add: round53_def Let_def sh_def round_half_even_one)
  show ?thesis
  proof (cases "sh = 0")
    case True
    then show ?thesis by (simp add: number_of_nat_def r math_round_def)
  next
    case False
    then have pos: "0 < sh" using sh by simp
    define k where "k = nat sh"
    have "(2 * (n * 2 ^ k) + 2 ^ k) div 2 ^ (k + 1) = ((2 * n + 1) * 2 ^ k) div (2 * 2 ^ k)"
      by (simp add: algebra_simps)
    also have "\<dots> = (2 * n + 1) div 2"
      using div_mult_mult2 [of "2 ^ k" "2 * n + 1" 2] by simp
    also have "\<dots> = n" by simp
    finally have "(2 * (n * 2 ^ k) + 2 ^ k) div 2 ^ (k + 1) = n" .
    then show ?thesis using pos by (simp add: number_of_nat_def r math_round_def k_def)
  qed
qed

lemma round53_two_53: "round53 9007199254740992 (Suc 0) = \<lparr>mant = 4503599627370496, expo = 1\<rparr>"
  by (simp add: round53_def ilog2_frac_def bit_length.simps round_half_even_def Let_def)

lemma round53_two_53_plus_one:
  "round53 9007199254740993 (Suc 0) = \<lparr>mant = 4503599627370496, expo = 1\<rparr>"
  by (simp add: round53_def ilog2_frac_def bit_length.simps round_half_even_def Let_def)

lemma number_of_nat_exact:
  assumes "n \<le> 2 ^ 53"
  shows "number_of_nat n = n"
proof (cases "n = 2 ^ 53")
  case True
  then show ?thesis by (simp add: number_of_nat_def round53_two_53 math_round_def)
next
  case False
  then show ?thesis using assms number_of_nat_small [of n] by simp
qed

lemma js_number_exact:
  assumes "- (2 ^ 53) \<le> i" and "i \<le> 2 ^ 53"
  shows "js_number i = i"
proof (cases "i < 0")
  case True
  then have "nat (- i) \<le> 2 ^ 53" using assms(1) by simp
  then show ?thesis using True by (simp add: js_number_def number_of_nat_exact)
next
  case False
  then have "nat i \<le> 2 ^ 53" using assms(2) by simp
  then show ?thesis using False by (simp add: js_number_def number_of_nat_exact)
qed

lemma js_plus_one_exact:
  assumes "- (2 ^ 53) \<le> m" and "m < 2 ^ 53"
  shows "js_plus_one m = m + 1"
  using assms by (simp add: js_plus_one_def js_number_exact)

lemma js_plus_one_two_53: "js_plus_one 9007199254740992 = 9007199254740992"
  by (simp add: js_plus_one_def js_number_def number_of_nat_def round53_two_53
      round53_two_53_plus_one math_round_def)

section \<open>Uploading\<close>

lemma upload_failed_not_success [simp]: "\<not> success (upload_failed e)"
  by (simp add: upload_failed_def jsonResponse_def Let_def)

lemma upload_success_chain:
  assumes "fd_file fd = Some f" and "upload en fd w = (resp, w')" and "success resp"
  shows "\<exists>img buf w1.
           file_size f \<le> maxFileSize \<and>
           select_filenames_fault en = None \<and>
           decode en = Inr img \<and>
           transcode en (file_size f) img = Inr buf \<and>
           s3_put (s3_put_fault en)
             (stored_filename (map row_filename (rows w)) (file_name f) (date_now en))
             \<lparr>obj_body = buf, obj_content_type = ''image/jpeg'', obj_acl = ''public-read''\<rparr> w = Inr w1 \<and>
           db_insert (insert_fault en)
             \<lparr>row_id = random_uuid en,
              row_filename = stored_filename (map row_filename (rows w)) (file_name f) (date_now en),
              row_url = ''https://asset.aoya-pottery.com/'' @
                 stored_filename (map row_filename (rows w)) (file_name f) (date_now en),
              row_size = jpeg_length buf, row_content_type = Some ''image/jpeg'',
              row_uploaded_at = now_iso en,
              row_display_order =
                Some (next_order (max_order_fault en) (try_add_display_order (alter_fault en) w1))\<rparr>
             (try_add_display_order (alter_fault en) w1) = Inr w' \<and>
           resp = jsonResponse True ''File uploaded successfully'' 200"
proof -
  have sz: "file_size f \<le> maxFileSize"
    using assms by (cases "file_size f > maxFileSize") (auto simp add: upload_def jsonResponse_def)
  have nf: "select_filenames_fault en = None"
    using assms sz by (cases "select_filenames_fault en") (auto simp add: upload_def db_select_filenames_def)
  then have names: "db_select_filenames (select_filenames_fault en) w = Inr (map row_filename (rows w))"
    by (simp add: db_select_filenames_def)
  obtain img where img: "decode en = Inr img"
    using assms sz names by (cases "decode en") (auto simp add: upload_def)
  obtain buf where buf: "transcode en (file_size f) img = Inr buf"
    using assms sz names img by (cases "transcode en (file_size f) img") (auto simp add: upload_def)
  let ?fn = "stored_filename (map row_filename (rows w)) (file_name f) (date_now en)"
  let ?obj = "\<lparr>obj_body = buf, obj_content_type = ''image/jpeg'', obj_acl = ''public-read''\<rparr>"
  obtain w1 where w1: "s3_put (s3_put_fault en) ?fn ?obj w = Inr w1"
    using assms sz names img buf
    by (cases "s3_put (s3_put_fault en) ?fn ?obj w") (auto simp add: upload_def Let_def)
  let ?w2 = "try_add_display_order (alter_fault en) w1"
  let ?row = "\<lparr>row_id = random_uuid en, row_filename = ?fn,
              row_url = ''https://asset.aoya-pottery.com/'' @ ?fn,
              row_size = jpeg_length buf, row_content_type = Some ''image/jpeg'',
              row_uploaded_at = now_iso en,
              row_display_order = Some (next_order (max_order_fault en) ?w2)\<rparr>"
  have ins: "db_insert (insert_fault en) ?row ?w2 = Inr w' \<and>
             resp = jsonResponse True ''File uploaded successfully'' 200"
    using assms sz names img buf w1
    by (cases "db_insert (insert_fault en) ?row ?w2") (auto simp add: upload_def Let_def)
  show ?thesis using sz nf img buf w1 ins by blast
qed


lemma s3_put_Inr:
  "s3_put f key obj w = Inr w1 \<Longrightarrow> w1 = w\<lparr>bucket := (bucket w)(key \<mapsto> obj)\<rparr>"
  by (cases f) (auto simp add: s3_put_def)

lemma db_insert_Inr:
  "db_insert f r w = Inr w' \<Longrightarrow> has_display_order w \<and> w' = w\<lparr>rows := rows w @ [r]\<rparr>"
  by (cases f) (auto simp add: db_insert_def split: if_splits)

lemma try_add_display_order_cases:
  "try_add_display_order f w = w \<or>
   (\<not> has_display_order w \<and>
    try_add_display_order f w =
      w\<lparr>rows := map (\<lambda>r. r\<lparr>row_display_order := None\<rparr>) (rows w), has_display_order := True\<rparr>)"
  by (cases f) (auto simp add: try_add_display_order_def db_add_display_order_def)

lemma try_add_display_order_bucket [simp]:
  "bucket (try_add_display_order f w) = bucket w"
  using try_add_display_order_cases [of f w] by auto

lemma try_add_display_order_length [simp]:
  "length (rows (try_add_display_order f w)) = length (rows w)"
  using try_add_display_order_cases [of f w] by auto

lemma set_map_filter: "set (List.map_filter g xs) = {y. \<exists>x\<in>set xs. g x = Some y}"
  by (induction xs) (auto simp add: List.map_filter_simps split: option.splits)

lemma max_display_order_None:
  "(max_display_order rs = None) = (\<forall>r\<in>set rs. row_display_order r = None)"
proof -
  have "(List.map_filter row_display_order rs = []) =
        (set (List.map_filter row_display_order rs) = {})"
    by simp
  also have "\<dots> = ({d. \<exists>r\<in>set rs. row_display_order r = Some d} = {})"
    by (simp only: set_map_filter)
  also have "\<dots> = (\<forall>r\<in>set rs. row_display_order r = None)"
    by (auto simp add: not_Some_eq [symmetric] simp del: not_Some_eq not_None_eq)
  finally have e: "(List.map_filter row_display_order rs = []) =
        (\<forall>r\<in>set rs. row_display_order r = None)" .
  show ?thesis
  proof (cases "List.map_filter row_display_order rs")
    case Nil
    then show ?thesis using e by (simp add: max_display_order_def)
  next
    case (Cons x xs)
    then show ?thesis using e by (simp add: max_display_order_def)
  qed
qed

lemma max_display_order_Some:
  "max_display_order rs = Some m \<Longrightarrow> m = Max {d. \<exists>r\<in>set rs. row_display_order r = Some d}"
proof -
  assume a: "max_display_order rs = Some m"
  then obtain x xs where xs: "List.map_filter row_display_order rs = x # xs" and m: "m = fold max xs x"
    by (auto simp add: max_display_order_def split: list.splits)
  have "Max (set (x # xs)) = fold max xs x" by (rule Max.set_eq_fold)
  then show ?thesis using xs m set_map_filter [of row_display_order rs] by simp
qed

lemma next_order_cases:
  "next_order f w = 1 \<or>
   (f = None \<and> has_display_order w \<and>
    (\<exists>m. max_display_order (rows w) = Some m \<and> next_order f w = js_plus_one m))"
  by (cases f; cases "max_display_order (rows w)")
     (auto simp add: next_order_def db_select_max_order_def)

lemma next_order_answered:
  "has_display_order w \<Longrightarrow> max_display_order (rows w) = Some m \<Longrightarrow>
   next_order None w = js_plus_one m"
  by (simp add: next_order_def db_select_max_order_def)

lemma next_order_thrown: "f \<noteq> None \<Longrightarrow> next_order f w = 1"
  by (cases f) (simp_all add: next_order_def db_select_max_order_def)

lemma next_order_bucket [simp]: "next_order f (w\<lparr>bucket := b\<rparr>) = next_order f w"
  by (cases f) (simp_all add: next_order_def db_select_max_order_def)

lemma next_order_no_rank:
  "\<forall>r\<in>set (rows w). row_display_order r = None \<Longrightarrow> next_order f w = 1"
  using next_order_cases [of f w] max_display_order_None [of "rows w"] by auto

lemma fdiv_1000_2000: "fdiv 1000 2000 = \<lparr>mant = 4503599627370496, expo = - 53\<rparr>"
  by (simp add: fdiv_def round53_def ilog2_frac_def bit_length.simps round_half_even_def Let_def)

lemma fmul_1920_half:
  "fmul 1920 \<lparr>mant = 4503599627370496, expo = - 53\<rparr> =
     \<lparr>mant = 8444249301319680, expo = - 43\<rparr>"
  by (simp add: fmul_def round53_def ilog2_frac_def bit_length.simps round_half_even_def Let_def)

lemma new_height_flower: "new_height 1920 2000 1000 = 960"
  by (simp add: new_height_def fdiv_1000_2000 fmul_1920_half math_round_def)

lemma transcode_flower:
  "transcode example_env (8388608) \<lparr>img_width = 2000, img_height = 1000\<rparr> = Inr flower_jpeg"
  by (simp add: transcode_def select_tier_def new_height_flower resize_def get_bytes_jpeg_def
      example_env_def flower_jpeg_def)

lemma stored_filename_flower:
  "stored_filename [''flower.jpg'', ''vase.jpg''] ''flower.png'' 1700000000000 =
     ''flower-1700000000000.jpg''"
  by (simp add: stored_filename_def nameWithoutExt_def lastIndexOf_def string_of_int_def
      string_of_nat.simps)

lemma next_order_example: "next_order None example_world = 3"
  by (simp add: next_order_def db_select_max_order_def max_display_order_def example_world_def
      example_row_def List.map_filter_simps js_plus_one_exact)

lemma max_display_order_big: "max_display_order (rows big_world) = Some 9007199254740992"
  by (simp add: max_display_order_def big_world_def example_row_def List.map_filter_simps)

lemma big_world_shape:
  "map row_filename (rows big_world) = [''flower.jpg'', ''vase.jpg'']"
  "map row_id (rows big_world) = [''a'', ''b'']"
  "has_display_order big_world"
  by (simp_all add: big_world_def example_row_def)

lemma next_order_big: "next_order None big_world = 9007199254740992"
  by (simp add: next_order_def db_select_max_order_def max_display_order_big big_world_shape
      js_plus_one_two_53)

lemma flower_upload_run_on:
  assumes names: "map row_filename (rows w) = [''flower.jpg'', ''vase.jpg'']"
    and ids: "map row_id (rows w) = [''a'', ''b'']"
    and col: "has_display_order w"
  shows "action (example_env\<lparr>max_order_fault := mf\<rparr>) flower_upload w =
     (jsonResponse True ''File uploaded successfully'' 200,
      w\<lparr>rows := rows w @ [flower_row\<lparr>row_display_order := Some (next_order mf w)\<rparr>],
        bucket := (bucket w)
          (''flower-1700000000000.jpg'' \<mapsto>
             \<lparr>obj_body = flower_jpeg, obj_content_type = ''image/jpeg'',
              obj_acl = ''public-read''\<rparr>)\<rparr>)"
proof -
  let ?en = "example_env\<lparr>max_order_fault := mf\<rparr>"
  have dec: "decode ?en = Inr \<lparr>img_width = 2000, img_height = 1000\<rparr>"
    by (simp add: example_env_def)
  have tr: "transcode ?en 8388608 \<lparr>img_width = 2000, img_height = 1000\<rparr> = Inr flower_jpeg"
    by (simp add: transcode_def select_tier_def new_height_flower resize_def get_bytes_jpeg_def
        example_env_def flower_jpeg_def)
  have faults: "select_filenames_fault ?en = None" "s3_put_fault ?en = None"
    "alter_fault ?en = None" "max_order_fault ?en = mf"
    "insert_fault ?en = None" "date_now ?en = 1700000000000"
    "random_uuid ?en = ''id-new''" "now_iso ?en = ''2025-03-01T10:00:00.000Z''"
    by (simp_all add: example_env_def)
  show ?thesis
    by (simp add: action_def upload_def flower_upload_def upload_request_def maxFileSize_def
        db_select_filenames_def names dec tr stored_filename_flower faults
        s3_put_def try_add_display_order_def db_add_display_order_def col
        db_insert_def ids flower_row_def flower_jpeg_def Let_def)
qed

lemma example_world_shape:
  "map row_filename (rows example_world) = [''flower.jpg'', ''vase.jpg'']"
  "map row_id (rows example_world) = [''a'', ''b'']"
  "has_display_order example_world"
  by (simp_all add: example_world_def example_row_def)

lemma flower_upload_run:
  "action example_env flower_upload example_world =
     (jsonResponse True ''File uploaded successfully'' 200,
      example_world\<lparr>rows := rows example_world @ [flower_row],
                    bucket := (bucket example_world)
                      (''flower-1700000000000.jpg'' \<mapsto>
                         \<lparr>obj_body = flower_jpeg, obj_content_type = ''image/jpeg'',
                          obj_acl = ''public-read''\<rparr>)\<rparr>)"
proof -
  have e: "example_env\<lparr>max_order_fault := None\<rparr> = example_env"
    by (simp add: example_env_def)
  show ?thesis
    using flower_upload_run_on [OF example_world_shape, of None]
    by (simp add: e next_order_example flower_row_def)
qed

lemma flower_upload_max_fault_run:
  "action max_fault_env flower_upload example_world =
     (jsonResponse True ''File uploaded successfully'' 200,
      example_world\<lparr>rows := rows example_world @ [flower_row\<lparr>row_display_order := Some 1\<rparr>],
                    bucket := (bucket example_world)
                      (''flower-1700000000000.jpg'' \<mapsto>
                         \<lparr>obj_body = flower_jpeg, obj_content_type = ''image/jpeg'',
                          obj_acl = ''public-read''\<rparr>)\<rparr>)"
  using flower_upload_run_on [OF example_world_shape, of "Some (Error ''D1_ERROR'')"]
  by (simp add: max_fault_env_def next_order_thrown)

lemma flower_upload_big_run:
  "action example_env flower_upload big_world =
     (jsonResponse True ''File uploaded successfully'' 200,
      big_world\<lparr>rows := rows big_world @
                    [flower_row\<lparr>row_display_order := Some 9007199254740992\<rparr>],
                bucket := (bucket big_world)
                  (''flower-1700000000000.jpg'' \<mapsto>
                     \<lparr>obj_body = flower_jpeg, obj_content_type = ''image/jpeg'',
                      obj_acl = ''public-read''\<rparr>)\<rparr>)"
proof -
  have e: "example_env\<lparr>max_order_fault := None\<rparr> = example_env"
    by (simp add: example_env_def)
  show ?thesis
    using flower_upload_run_on [OF big_world_shape, of None]
    by (simp add: e next_order_big)
qed

lemma flower_upload_old_run:
  "success (fst (action example_env flower_upload old_world)) \<and>
   has_display_order (snd (action example_env flower_upload old_world))"
proof -
  have names: "map row_filename (rows old_world) = [''flower.jpg'', ''vase.jpg'']"
    by (simp add: old_world_def example_row_def)
  have dec: "decode example_env = Inr \<lparr>img_width = 2000, img_height = 1000\<rparr>"
    by (simp add: example_env_def)
  have faults: "select_filenames_fault example_env = None" "s3_put_fault example_env = None"
    "alter_fault example_env = None" "max_order_fault example_env = None"
    "insert_fault example_env = None" "date_now example_env = 1700000000000"
    "random_uuid example_env = ''id-new''" "now_iso example_env = ''2025-03-01T10:00:00.000Z''"
    by (simp_all add: example_env_def)
  have col: "\<not> has_display_order old_world" by (simp add: old_world_def)
  have ids: "map row_id (rows old_world) = [''a'', ''b'']"
    by (simp add: old_world_def example_row_def)
  show ?thesis
    by (simp add: action_def upload_def flower_upload_def upload_request_def maxFileSize_def
        db_select_filenames_def names dec transcode_flower stored_filename_flower faults
        s3_put_def try_add_display_order_def db_add_display_order_def col next_order_def
        db_select_max_order_def db_insert_def ids jsonResponse_def comp_def
        max_display_order_def List.map_filter_simps Let_def)
qed

lemma last_index_from_absent:
  "c \<notin> set s \<Longrightarrow> last_index_from c s i found = found"
  by (induction s arbitrary: i) auto

lemma last_index_from_last:
  "c \<notin> set ext \<Longrightarrow> last_index_from c (b @ c # ext) i found = int (i + length b)"
  by (induction b arbitrary: i found) (simp_all add: last_index_from_absent)

lemma nameWithoutExt_strip:
  assumes "b \<noteq> []" and "CHR ''.'' \<notin> set ext"
  shows "nameWithoutExt (b @ ''.'' @ ext) = b"
proof -
  have "lastIndexOf (b @ ''.'' @ ext) CHR ''.'' = int (length b)"
    using last_index_from_last [OF assms(2), of b 0 "- 1"] by (simp add: lastIndexOf_def)
  then show ?thesis using assms(1) by (simp add: nameWithoutExt_def)
qed

lemma nameWithoutExt_keep:
  assumes "CHR ''.'' \<notin> set (tl s)"
  shows "nameWithoutExt s = s"
proof (cases s)
  case Nil
  then show ?thesis by (simp add: nameWithoutExt_def lastIndexOf_def)
next
  case (Cons x xs)
  then have "CHR ''.'' \<notin> set xs" using assms by simp
  then have "lastIndexOf s CHR ''.'' \<le> 0"
    using Cons by (simp add: lastIndexOf_def last_index_from_absent)
  then show ?thesis by (simp add: nameWithoutExt_def)
qed

lemma renamed_differs: "b @ ''-'' @ t @ ''.jpg'' \<noteq> b @ ''.jpg''"
  by simp

lemma stored_filename_suffix:
  "drop (length (stored_filename names name ts) - 4) (stored_filename names name ts) = ''.jpg''"
  by (simp add: stored_filename_def Let_def)


text \<open>
  Within one request: after a successful upload the inserted row and the stored object
  carry the filename \<open>stored\<close>, computed from the original name and the filenames the
  request read from the table (the handler adds the chosen name to its set only after the
  test, and the set does not outlive the request):
  \<^item> \<open>base\<close> is the original name up to its last dot, when that dot is not the first
    character, and the whole original name otherwise;
  \<^item> \<open>stored\<close> is \<open>base\<close> followed by \<^verbatim>\<open>.jpg\<close> when no row has that filename;
  \<^item> otherwise \<open>stored\<close> is \<open>base\<close>, a hyphen, the millisecond clock in decimal and
    \<^verbatim>\<open>.jpg\<close>, which differs from the colliding name;
  \<^item> in both cases \<open>stored\<close> ends in \<^verbatim>\<open>.jpg\<close>.
\<close>

lemma upload_stored_filename:
  assumes "fd_intent fd = Some ''upload''" and "fd_file fd = Some f"
    and "action en fd w = (resp, w')" and "success resp"
  shows "let base = nameWithoutExt (file_name f);
             stored = stored_filename (map row_filename (rows w)) (file_name f) (date_now en)
         in rows w' \<noteq> [] \<and> row_filename (last (rows w')) = stored \<and> bucket w' stored \<noteq> None \<and>
            (base @ ''.jpg'' \<notin> row_filename ` set (rows w) \<longrightarrow> stored = base @ ''.jpg'') \<and>
            (base @ ''.jpg'' \<in> row_filename ` set (rows w) \<longrightarrow>
               stored = base @ ''-'' @ string_of_int (date_now en) @ ''.jpg'' \<and>
               stored \<noteq> base @ ''.jpg'') \<and>
            drop (length stored - 4) stored = ''.jpg'' \<and>
            (\<forall>b ext. file_name f = b @ ''.'' @ ext \<and> b \<noteq> [] \<and> CHR ''.'' \<notin> set ext \<longrightarrow> base = b) \<and>
            (CHR ''.'' \<notin> set (tl (file_name f)) \<longrightarrow> base = file_name f)"
proof -
  let ?base = "nameWithoutExt (file_name f)"
  let ?stored = "stored_filename (map row_filename (rows w)) (file_name f) (date_now en)"
  have up: "upload en fd w = (resp, w')" using assms by (simp add: action_def)
  from upload_success_chain [OF assms(2) up assms(4)]
  obtain img buf w1 where
    put: "s3_put (s3_put_fault en) ?stored
             \<lparr>obj_body = buf, obj_content_type = ''image/jpeg'', obj_acl = ''public-read''\<rparr> w = Inr w1"
    and ins: "db_insert (insert_fault en)
             \<lparr>row_id = random_uuid en, row_filename = ?stored,
              row_url = ''https://asset.aoya-pottery.com/'' @ ?stored,
              row_size = jpeg_length buf, row_content_type = Some ''image/jpeg'',
              row_uploaded_at = now_iso en,
              row_display_order =
                Some (next_order (max_order_fault en) (try_add_display_order (alter_fault en) w1))\<rparr>
             (try_add_display_order (alter_fault en) w1) = Inr w'"
    by blast
  have b1: "bucket w1 ?stored \<noteq> None" using s3_put_Inr [OF put] by simp
  have r: "rows w' \<noteq> []" "row_filename (last (rows w')) = ?stored" "bucket w' = bucket w1"
    using db_insert_Inr [OF ins] by simp_all
  have b: "bucket w' ?stored \<noteq> None" using b1 r(3) by simp
  have free: "?base @ ''.jpg'' \<notin> row_filename ` set (rows w) \<longrightarrow> ?stored = ?base @ ''.jpg''"
    by (simp add: stored_filename_def Let_def)
  have taken: "?base @ ''.jpg'' \<in> row_filename ` set (rows w) \<longrightarrow>
               ?stored = ?base @ ''-'' @ string_of_int (date_now en) @ ''.jpg'' \<and>
               ?stored \<noteq> ?base @ ''.jpg''"
    by (simp add: stored_filename_def Let_def)
  have sfx: "drop (length ?stored - 4) ?stored = ''.jpg''" by (rule stored_filename_suffix)
  have strip: "\<forall>b ext. file_name f = b @ ''.'' @ ext \<and> b \<noteq> [] \<and> CHR ''.'' \<notin> set ext \<longrightarrow> ?base = b"
    using nameWithoutExt_strip by auto
  have keep: "CHR ''.'' \<notin> set (tl (file_name f)) \<longrightarrow> ?base = file_name f"
    using nameWithoutExt_keep by blast
  show ?thesis
    unfolding Let_def using r(1,2) b free taken sfx strip keep by blast
qed


lemma upload_stored_filename_example:
  "stored_filename (map row_filename (rows example_world)) ''flower.png'' 1700000000000 =
     ''flower-1700000000000.jpg'' \<and>
   row_filename (last (rows (snd (action example_env flower_upload example_world)))) =
     ''flower-1700000000000.jpg'' \<and>
   bucket (snd (action example_env flower_upload example_world)) ''flower-1700000000000.jpg''
     \<noteq> None"
proof -
  have i: "fd_intent flower_upload = Some ''upload''"
    and f: "fd_file flower_upload = Some \<lparr>file_name = ''flower.png'', file_size = 8388608\<rparr>"
    by (simp_all add: flower_upload_def upload_request_def)
  have s: "success (jsonResponse True ''File uploaded successfully'' 200)"
    by (simp add: jsonResponse_def)
  have names: "map row_filename (rows example_world) = [''flower.jpg'', ''vase.jpg'']"
    by (simp add: example_world_def example_row_def)
  have d: "date_now example_env = 1700000000000" by (simp add: example_env_def)
  show ?thesis
    using upload_stored_filename [OF i f flower_upload_run s]
    by (simp add: Let_def names d stored_filename_flower flower_upload_run)
qed


text \<open>
  The handler is its first read followed by the rest, so \<open>in_flight_pair\<close> runs the code of
  two requests.
\<close>

lemma upload_split:
  "upload en fd w =
     (case upload_read en fd w of
        Inl r \<Rightarrow> (r, w)
      | Inr (file, names) \<Rightarrow> upload_after_read en file names w)"
  by (simp add: upload_def upload_read_def upload_after_read_def
      split: option.splits sum.splits)

lemma bowl_names:
  "stored_filename [''flower.jpg'', ''vase.jpg''] ''bowl.png'' 1700000000000 = ''bowl.jpg''"
  "stored_filename [''flower.jpg'', ''vase.jpg''] ''bowl.gif'' 1700000000001 = ''bowl.jpg''"
  by (simp_all add: stored_filename_def nameWithoutExt_def lastIndexOf_def)

lemma bowl_reads:
  "upload_read example_env bowl_png_upload example_world =
     Inr (\<lparr>file_name = ''bowl.png'', file_size = 8388608\<rparr>, [''flower.jpg'', ''vase.jpg''])"
  "upload_read second_env bowl_gif_upload example_world =
     Inr (\<lparr>file_name = ''bowl.gif'', file_size = 8388608\<rparr>, [''flower.jpg'', ''vase.jpg''])"
  by (simp_all add: upload_read_def bowl_png_upload_def bowl_gif_upload_def upload_request_def
      maxFileSize_def db_select_filenames_def example_env_def second_env_def
      example_world_shape)


lemma bowl_first_rest:
  "upload_after_read example_env \<lparr>file_name = ''bowl.png'', file_size = 8388608\<rparr>
     [''flower.jpg'', ''vase.jpg''] example_world =
     (jsonResponse True ''File uploaded successfully'' 200, after_first)"
proof -
  have dec: "decode example_env = Inr \<lparr>img_width = 2000, img_height = 1000\<rparr>"
    by (simp add: example_env_def)
  have faults: "s3_put_fault example_env = None"
    "alter_fault example_env = None" "max_order_fault example_env = None"
    "insert_fault example_env = None" "date_now example_env = 1700000000000"
    "random_uuid example_env = ''id-new''" "now_iso example_env = ''2025-03-01T10:00:00.000Z''"
    by (simp_all add: example_env_def)
  show ?thesis
    by (simp add: upload_after_read_def dec transcode_flower bowl_names faults
        s3_put_def try_add_display_order_def db_add_display_order_def example_world_shape
        next_order_example db_insert_def after_first_def bowl_row_def bowl_object_def
        flower_jpeg_def Let_def)
qed

lemma after_first_shape:
  "map row_id (rows after_first) = [''a'', ''b'', ''id-new'']"
  "has_display_order after_first"
  by (simp_all add: after_first_def example_world_def example_row_def bowl_row_def)

lemma next_order_after_first: "next_order None after_first = 4"
  by (simp add: next_order_def db_select_max_order_def max_display_order_def after_first_def
      example_world_def example_row_def bowl_row_def List.map_filter_simps js_plus_one_exact)

lemma bowl_second_rest:
  "upload_after_read second_env \<lparr>file_name = ''bowl.gif'', file_size = 8388608\<rparr>
     [''flower.jpg'', ''vase.jpg''] after_first =
     (jsonResponse True ''File uploaded successfully'' 200, after_second)"
proof -
  have dec: "decode second_env = Inr \<lparr>img_width = 2000, img_height = 1000\<rparr>"
    by (simp add: second_env_def example_env_def)
  have tr: "transcode second_env 8388608 \<lparr>img_width = 2000, img_height = 1000\<rparr> =
              Inr (flower_jpeg\<lparr>jpeg_length := 222222\<rparr>)"
    by (simp add: transcode_def select_tier_def new_height_flower resize_def get_bytes_jpeg_def
        second_env_def example_env_def flower_jpeg_def)
  have faults: "s3_put_fault second_env = None"
    "alter_fault second_env = None" "max_order_fault second_env = None"
    "insert_fault second_env = None" "date_now second_env = 1700000000001"
    "random_uuid second_env = ''id-new-2''" "now_iso second_env = ''2025-03-01T10:00:00.000Z''"
    by (simp_all add: second_env_def example_env_def)
  show ?thesis
    by (simp add: upload_after_read_def dec tr bowl_names faults
        s3_put_def try_add_display_order_def db_add_display_order_def after_first_shape
        next_order_after_first db_insert_def after_second_def bowl_row_def bowl_object_def
        flower_jpeg_def Let_def)
qed

lemma in_flight_bowls:
  "in_flight_pair example_env bowl_png_upload second_env bowl_gif_upload example_world =
     (jsonResponse True ''File uploaded successfully'' 200,
      jsonResponse True ''File uploaded successfully'' 200, after_second)"
  by (simp add: in_flight_pair_def bowl_reads bowl_first_rest bowl_second_rest)


lemma second_after_commit_renamed:
  "stored_filename (map row_filename (rows after_first)) ''bowl.gif'' 1700000000001 =
     ''bowl-1700000000001.jpg''"
  by (simp add: after_first_def example_world_def example_row_def bowl_row_def
      stored_filename_def nameWithoutExt_def lastIndexOf_def string_of_int_def
      string_of_nat.simps)

text \<open>
  Claim C3 does not hold of the code: a name claimed earlier in the same in-flight batch
  is not in the set the handler tests. \<^verbatim>\<open>bowl.png\<close> and \<^verbatim>\<open>bowl.gif\<close> are uploaded together
  to a table without \<^verbatim>\<open>bowl.jpg\<close>; both requests read the filenames before either
  inserts. Both succeed, both rows carry the filename \<^verbatim>\<open>bowl.jpg\<close> with no timestamp,
  and the object under that key is the second upload's, the first having been
  overwritten. (Had the second request read the table after the first row was inserted,
  its name would have been \<^verbatim>\<open>bowl-1700000000001.jpg\<close>.)
\<close>

theorem in_flight_batch_same_name:
  "upload_read example_env bowl_png_upload example_world =
     Inr (\<lparr>file_name = ''bowl.png'', file_size = 8388608\<rparr>, [''flower.jpg'', ''vase.jpg'']) \<and>
   upload_read second_env bowl_gif_upload example_world =
     Inr (\<lparr>file_name = ''bowl.gif'', file_size = 8388608\<rparr>, [''flower.jpg'', ''vase.jpg'']) \<and>
   success (fst (in_flight_pair example_env bowl_png_upload second_env bowl_gif_upload
                   example_world)) \<and>
   success (fst (snd (in_flight_pair example_env bowl_png_upload second_env bowl_gif_upload
                        example_world))) \<and>
   map row_filename
     (rows (snd (snd (in_flight_pair example_env bowl_png_upload second_env bowl_gif_upload
                        example_world)))) =
     [''flower.jpg'', ''vase.jpg'', ''bowl.jpg'', ''bowl.jpg''] \<and>
   map row_id
     (rows (snd (snd (in_flight_pair example_env bowl_png_upload second_env bowl_gif_upload
                        example_world)))) =
     [''a'', ''b'', ''id-new'', ''id-new-2''] \<and>
   map_option (jpeg_length \<circ> obj_body)
     (bucket (snd (snd (in_flight_pair example_env bowl_png_upload second_env bowl_gif_upload
                          example_world))) ''bowl.jpg'') = Some 222222"
proof -
  have r: "map row_filename (rows after_second) =
             [''flower.jpg'', ''vase.jpg'', ''bowl.jpg'', ''bowl.jpg'']"
    "map row_id (rows after_second) = [''a'', ''b'', ''id-new'', ''id-new-2'']"
    "map_option (jpeg_length \<circ> obj_body) (bucket after_second ''bowl.jpg'') = Some 222222"
    by (simp_all add: after_second_def after_first_def bowl_row_def bowl_object_def
        example_world_def example_row_def flower_jpeg_def)
  show ?thesis
    by (simp add: in_flight_bowls bowl_reads jsonResponse_def r)
qed

text \<open>
  Claim C4, as amended. After a successful upload the inserted row has a
  \<^verbatim>\<open>display_order\<close>. It is 1 when the table had no rows, when the column did not exist
  before the request, when no row had a value, and when the \<^verbatim>\<open>SELECT MAX\<close> statement
  threw. When the column existed, some row had a value and the statement was answered,
  it is \<^verbatim>\<open>maxOrder + 1\<close> in double precision for the largest value of any row: exactly
  that value plus 1 when the value is at least \<open>- (2 ^ 53)\<close> and below \<open>2 ^ 53\<close>.
\<close>

theorem upload_display_order:
  assumes "fd_intent fd = Some ''upload''" and "fd_file fd = Some f"
    and "action en fd w = (resp, w')" and "success resp"
  shows "rows w' \<noteq> [] \<and>
         (\<exists>n. row_display_order (last (rows w')) = Some n \<and>
            (rows w = [] \<longrightarrow> n = 1) \<and>
            (\<not> has_display_order w \<longrightarrow> n = 1) \<and>
            ((\<forall>r\<in>set (rows w). row_display_order r = None) \<longrightarrow> n = 1) \<and>
            (max_order_fault en \<noteq> None \<longrightarrow> n = 1) \<and>
            (has_display_order w \<and> max_order_fault en = None \<and>
             (\<exists>r\<in>set (rows w). row_display_order r \<noteq> None) \<longrightarrow>
               n = js_plus_one (Max {d. \<exists>r\<in>set (rows w). row_display_order r = Some d}) \<and>
               (- (2 ^ 53) \<le> Max {d. \<exists>r\<in>set (rows w). row_display_order r = Some d} \<and>
                Max {d. \<exists>r\<in>set (rows w). row_display_order r = Some d} < 2 ^ 53 \<longrightarrow>
                  n = Max {d. \<exists>r\<in>set (rows w). row_display_order r = Some d} + 1)))"
proof -
  have up: "upload en fd w = (resp, w')" using assms by (simp add: action_def)
  from upload_success_chain [OF assms(2) up assms(4)]
  obtain img buf w1 where
    put: "s3_put (s3_put_fault en)
             (stored_filename (map row_filename (rows w)) (file_name f) (date_now en))
             \<lparr>obj_body = buf, obj_content_type = ''image/jpeg'', obj_acl = ''public-read''\<rparr> w = Inr w1"
    and ins: "db_insert (insert_fault en)
             \<lparr>row_id = random_uuid en,
              row_filename = stored_filename (map row_filename (rows w)) (file_name f) (date_now en),
              row_url = ''https://asset.aoya-pottery.com/'' @
                 stored_filename (map row_filename (rows w)) (file_name f) (date_now en),
              row_size = jpeg_length buf, row_content_type = Some ''image/jpeg'',
              row_uploaded_at = now_iso en,
              row_display_order =
                Some (next_order (max_order_fault en) (try_add_display_order (alter_fault en) w1))\<rparr>
             (try_add_display_order (alter_fault en) w1) = Inr w'"
    by blast
  let ?w2 = "try_add_display_order (alter_fault en) w1"
  let ?n = "next_order (max_order_fault en) ?w2"
  have w1: "rows w1 = rows w" "has_display_order w1 = has_display_order w"
    using s3_put_Inr [OF put] by simp_all
  have w': "rows w' = rows ?w2 @ [\<lparr>row_id = random_uuid en,
              row_filename = stored_filename (map row_filename (rows w)) (file_name f) (date_now en),
              row_url = ''https://asset.aoya-pottery.com/'' @
                 stored_filename (map row_filename (rows w)) (file_name f) (date_now en),
              row_size = jpeg_length buf, row_content_type = Some ''image/jpeg'',
              row_uploaded_at = now_iso en,
              row_display_order = Some ?n\<rparr>]"
    using db_insert_Inr [OF ins] by simp
  have col2: "has_display_order ?w2" using db_insert_Inr [OF ins] by simp
  have ne: "rows w' \<noteq> []" and lst: "row_display_order (last (rows w')) = Some ?n"
    using w' by simp_all
  have same: "has_display_order w \<Longrightarrow> ?w2 = w1"
    using try_add_display_order_cases [of "alter_fault en" w1] w1 by auto
  have reset: "\<not> has_display_order w \<Longrightarrow> \<forall>r\<in>set (rows ?w2). row_display_order r = None"
    using try_add_display_order_cases [of "alter_fault en" w1] w1 col2 by auto
  have none: "\<forall>r\<in>set (rows w). row_display_order r = None \<Longrightarrow>
              \<forall>r\<in>set (rows ?w2). row_display_order r = None"
    using try_add_display_order_cases [of "alter_fault en" w1] w1 by auto
  have c1: "rows w = [] \<longrightarrow> ?n = 1"
    using none next_order_no_rank [of ?w2 "max_order_fault en"] by simp
  have c2: "\<not> has_display_order w \<longrightarrow> ?n = 1"
    using reset next_order_no_rank [of ?w2 "max_order_fault en"] by blast
  have c3: "(\<forall>r\<in>set (rows w). row_display_order r = None) \<longrightarrow> ?n = 1"
    using none next_order_no_rank [of ?w2 "max_order_fault en"] by blast
  have c5: "max_order_fault en \<noteq> None \<longrightarrow> ?n = 1"
    using next_order_thrown [of "max_order_fault en" ?w2] by blast
  have c4: "has_display_order w \<and> max_order_fault en = None \<and>
             (\<exists>r\<in>set (rows w). row_display_order r \<noteq> None) \<longrightarrow>
               ?n = js_plus_one (Max {d. \<exists>r\<in>set (rows w). row_display_order r = Some d}) \<and>
               (- (2 ^ 53) \<le> Max {d. \<exists>r\<in>set (rows w). row_display_order r = Some d} \<and>
                Max {d. \<exists>r\<in>set (rows w). row_display_order r = Some d} < 2 ^ 53 \<longrightarrow>
                  ?n = Max {d. \<exists>r\<in>set (rows w). row_display_order r = Some d} + 1)"
  proof
    assume a: "has_display_order w \<and> max_order_fault en = None \<and>
             (\<exists>r\<in>set (rows w). row_display_order r \<noteq> None)"
    then have eq: "?w2 = w1" using same by simp
    from a have "max_display_order (rows w) \<noteq> None"
      by (simp add: max_display_order_None)
    then obtain m where m: "max_display_order (rows w) = Some m" by auto
    have mx: "m = Max {d. \<exists>r\<in>set (rows w). row_display_order r = Some d}"
      using max_display_order_Some [OF m] .
    have n: "?n = js_plus_one m"
      using next_order_answered [of w1 m] a m w1 eq by simp
    have "- (2 ^ 53) \<le> m \<and> m < 2 ^ 53 \<longrightarrow> ?n = m + 1"
      using n js_plus_one_exact [of m] by simp
    then show "?n = js_plus_one (Max {d. \<exists>r\<in>set (rows w). row_display_order r = Some d}) \<and>
               (- (2 ^ 53) \<le> Max {d. \<exists>r\<in>set (rows w). row_display_order r = Some d} \<and>
                Max {d. \<exists>r\<in>set (rows w). row_display_order r = Some d} < 2 ^ 53 \<longrightarrow>
                  ?n = Max {d. \<exists>r\<in>set (rows w). row_display_order r = Some d} + 1)"
      using n unfolding mx [symmetric] by blast
  qed
  show ?thesis using ne lst c1 c2 c3 c4 c5 by blast
qed

theorem upload_display_order_witness:
  "success (fst (action example_env flower_upload example_world)) \<and>
   row_display_order (last (rows (snd (action example_env flower_upload example_world)))) = Some 3 \<and>
   \<not> has_display_order old_world \<and>
   success (fst (action example_env flower_upload old_world)) \<and>
   row_display_order (last (rows (snd (action example_env flower_upload old_world)))) = Some 1"
proof -
  let ?w' = "snd (action example_env flower_upload example_world)"
  let ?o' = "snd (action example_env flower_upload old_world)"
  have i: "fd_intent flower_upload = Some ''upload''"
    and f: "fd_file flower_upload = Some \<lparr>file_name = ''flower.png'', file_size = 8388608\<rparr>"
    by (simp_all add: flower_upload_def upload_request_def)
  have s: "success (jsonResponse True ''File uploaded successfully'' 200)"
    by (simp add: jsonResponse_def)
  from upload_display_order [OF i f flower_upload_run s]
  obtain n where n: "row_display_order (last (rows ?w')) = Some n"
    and c: "has_display_order example_world \<and> max_order_fault example_env = None \<and>
             (\<exists>r\<in>set (rows example_world). row_display_order r \<noteq> None) \<longrightarrow>
               (- (2 ^ 53) \<le> Max {d. \<exists>r\<in>set (rows example_world). row_display_order r = Some d} \<and>
                Max {d. \<exists>r\<in>set (rows example_world). row_display_order r = Some d} < 2 ^ 53 \<longrightarrow>
                n = Max {d. \<exists>r\<in>set (rows example_world). row_display_order r = Some d} + 1)"
    by (auto simp add: flower_upload_run)
  have pre: "has_display_order example_world \<and> max_order_fault example_env = None \<and>
             (\<exists>r\<in>set (rows example_world). row_display_order r \<noteq> None)"
    by (simp add: example_world_def example_env_def example_row_def)
  have "{d. \<exists>r\<in>set (rows example_world). row_display_order r = Some d} = {1, 2}"
    by (auto simp add: example_world_def example_row_def)
  then have "Max {d. \<exists>r\<in>set (rows example_world). row_display_order r = Some d} = 2"
    by simp
  then have n3: "n = 3" using c pre by simp
  have so: "success (fst (action example_env flower_upload old_world))"
    using flower_upload_old_run by simp
  have ro: "action example_env flower_upload old_world =
              (fst (action example_env flower_upload old_world), ?o')"
    by simp
  have nc: "\<not> has_display_order old_world" by (simp add: old_world_def)
  from upload_display_order [OF i f ro so]
  obtain k where k: "row_display_order (last (rows ?o')) = Some k"
    and c2: "\<not> has_display_order old_world \<longrightarrow> k = 1"
    by blast
  have k1: "k = 1" using c2 nc by simp
  show ?thesis using n n3 s k k1 so nc by (simp add: flower_upload_run)
qed

text \<open>
  Claim C4 as stated has the new rank equal the largest rank plus 1 whenever there is one.
  With ranks 1 and 2 in the table and a \<^verbatim>\<open>SELECT MAX\<close> statement that throws, the upload
  succeeds and the new row is ranked 1. With a largest rank of \<open>2 ^ 53\<close> the new row is
  ranked \<open>2 ^ 53\<close> again.
\<close>

theorem display_order_not_max_plus_one_counterexample:
  "has_display_order example_world \<and>
   max_display_order (rows example_world) = Some 2 \<and>
   success (fst (action max_fault_env flower_upload example_world)) \<and>
   row_display_order (last (rows (snd (action max_fault_env flower_upload example_world)))) =
     Some 1 \<and>
   has_display_order big_world \<and>
   max_display_order (rows big_world) = Some 9007199254740992 \<and>
   success (fst (action example_env flower_upload big_world)) \<and>
   row_display_order (last (rows (snd (action example_env flower_upload big_world)))) =
     Some 9007199254740992"
proof -
  have m: "max_display_order (rows example_world) = Some 2"
    by (simp add: max_display_order_def example_world_def example_row_def List.map_filter_simps)
  show ?thesis
    by (simp add: m max_display_order_big example_world_shape big_world_shape
        flower_upload_max_fault_run flower_upload_big_run jsonResponse_def flower_row_def)
qed

section \<open>Resizing\<close>

subsection \<open>The double-precision operations\<close>

text \<open>
  The exponent chosen by \<open>ilog2_frac\<close> brackets the quotient, rounding to the nearest
  integer is off by at most a half, and so each operation has relative error at most
  \<open>2 ^ - 53\<close>; \<open>math_round\<close> is \<open>\<lfloor>x + 1/2\<rfloor>\<close> on the value of the double.
\<close>

lemma round_half_even_error:
  assumes "0 < den"
  shows "\<bar>(of_nat (round_half_even n den) :: rat) - of_nat n / of_nat den\<bar> \<le> 1 / 2"
proof -
  define k where "k = n div den"
  define r where "r = n mod den"
  have n: "n = k * den + r" by (simp add: k_def r_def)
  have rl: "r < den" using assms by (simp add: r_def)
  have dpos: "(0::rat) < of_nat den" using assms by simp
  have q: "(of_nat n :: rat) / of_nat den = of_nat k + of_nat r / of_nat den"
    using dpos by (simp add: n field_simps)
  have r0: "(0::rat) \<le> of_nat r / of_nat den" by simp
  have r1: "(of_nat r :: rat) / of_nat den < 1" using rl dpos by simp
  consider "2 * r < den" | "den < 2 * r" | "2 * r = den" by linarith
  then show ?thesis
  proof cases
    case 1
    then have "(of_nat (2 * r) :: rat) < of_nat den" by (simp only: of_nat_less_iff)
    then have "(of_nat r :: rat) / of_nat den < 1 / 2" using dpos by (simp add: field_simps)
    moreover have "round_half_even n den = k"
      using 1 by (simp add: round_half_even_def k_def r_def Let_def)
    ultimately show ?thesis using q r0 by simp
  next
    case 2
    then have "(of_nat den :: rat) < of_nat (2 * r)" by (simp only: of_nat_less_iff)
    then have "1 / 2 < (of_nat r :: rat) / of_nat den" using dpos by (simp add: field_simps)
    moreover have "round_half_even n den = k + 1"
      using 2 by (simp add: round_half_even_def k_def r_def Let_def)
    ultimately show ?thesis using q r1 by simp
  next
    case 3
    then have "(of_nat (2 * r) :: rat) = of_nat den" by (simp only:)
    then have h: "(of_nat r :: rat) / of_nat den = 1 / 2" using dpos by (simp add: field_simps)
    have "round_half_even n den = k \<or> round_half_even n den = k + 1"
      using 3 by (simp add: round_half_even_def k_def r_def Let_def)
    then show ?thesis using q h by auto
  qed
qed

lemma two_powi_pos [simp]: "(0::rat) < 2 powi e"
  by (simp add: power_int_def)

lemma two_powi_add: "(2::rat) powi (a + b) = 2 powi a * 2 powi b"
  by (simp add: power_int_add)

lemma two_powi_nat: "0 \<le> e \<Longrightarrow> (2::rat) powi e = 2 ^ nat e"
  by (simp add: power_int_def)

lemma two_powi_neg: "e < 0 \<Longrightarrow> (2::rat) powi e = 1 / 2 ^ nat (- e)"
  by (simp add: power_int_def power_inverse [symmetric] inverse_eq_divide power_one_over)

lemma bit_length_powi:
  assumes "0 < n"
  shows "(2::rat) powi (int (bit_length n) - 1) \<le> of_nat n \<and>
         (of_nat n :: rat) < 2 powi (int (bit_length n))"
proof -
  have b: "2 ^ (bit_length n - 1) \<le> n \<and> n < 2 ^ bit_length n"
    using assms by (rule bit_length_bounds)
  have pos: "0 < bit_length n" using assms by (subst bit_length.simps) simp
  then have e: "int (bit_length n) - 1 = int (bit_length n - 1)" by simp
  have lo: "(of_nat (2 ^ (bit_length n - 1)) :: rat) \<le> of_nat n"
    using b by (simp only: of_nat_le_iff)
  have hi: "(of_nat n :: rat) < of_nat (2 ^ bit_length n)"
    using b by (simp only: of_nat_less_iff)
  show ?thesis using lo hi by (simp add: e)
qed

lemma ilog2_frac_bounds:
  assumes "0 < p" and "0 < q"
  shows "(2::rat) powi (ilog2_frac p q) \<le> of_nat p / of_nat q \<and>
         (of_nat p :: rat) / of_nat q < 2 powi (ilog2_frac p q + 1)"
proof -
  define d where "d = int (bit_length p) - int (bit_length q)"
  define x :: rat where "x = of_nat p / of_nat q"
  have qpos: "(0::rat) < of_nat q" using assms by simp
  have ppos: "(0::rat) < of_nat p" using assms by simp
  note bp = bit_length_powi [OF assms(1)]
  note bq = bit_length_powi [OF assms(2)]
  have s1: "(d - 1) + int (bit_length q) = int (bit_length p) - 1" by (simp add: d_def)
  have s2: "(d + 1) + (int (bit_length q) - 1) = int (bit_length p)" by (simp add: d_def)
  have e1: "(2::rat) powi (d - 1) * 2 powi (int (bit_length q)) = 2 powi (int (bit_length p) - 1)"
    using two_powi_add [of "d - 1" "int (bit_length q)"] by (simp only: s1)
  have e2: "(2::rat) powi (d + 1) * 2 powi (int (bit_length q) - 1) = 2 powi (int (bit_length p))"
    using two_powi_add [of "d + 1" "int (bit_length q) - 1"] by (simp only: s2)
  have lower: "2 powi (d - 1) < x"
  proof -
    have "(2::rat) powi (d - 1) * of_nat q < 2 powi (d - 1) * 2 powi (int (bit_length q))"
      using bq by (simp only: mult_less_cancel_left_pos two_powi_pos)
    also have "\<dots> \<le> of_nat p" using bp by (simp only: e1)
    finally show ?thesis using qpos by (simp add: x_def pos_less_divide_eq)
  qed
  have upper: "x < 2 powi (d + 1)"
  proof -
    have "(of_nat p :: rat) < 2 powi (d + 1) * 2 powi (int (bit_length q) - 1)"
      using bp by (simp only: e2)
    also have "\<dots> \<le> 2 powi (d + 1) * of_nat q"
      using bq by (simp only: mult_le_cancel_left_pos two_powi_pos)
    finally show ?thesis using qpos by (simp add: x_def pos_divide_less_eq)
  qed
  have test: "(if 0 \<le> d then q * 2 ^ nat d \<le> p else q \<le> p * 2 ^ nat (- d)) = (2 powi d \<le> x)"
  proof (cases "0 \<le> d")
    case True
    have "(q * 2 ^ nat d \<le> p) = ((of_nat (q * 2 ^ nat d) :: rat) \<le> of_nat p)"
      by (simp only: of_nat_le_iff)
    also have "\<dots> = ((2::rat) ^ nat d \<le> x)"
      using qpos by (simp add: x_def pos_le_divide_eq mult.commute)
    finally show ?thesis using True by (simp add: two_powi_nat)
  next
    case False
    have "(q \<le> p * 2 ^ nat (- d)) = ((of_nat q :: rat) \<le> of_nat (p * 2 ^ nat (- d)))"
      by (simp only: of_nat_le_iff)
    also have "\<dots> = (1 / (2::rat) ^ nat (- d) \<le> x)"
      using qpos by (simp add: x_def field_simps)
    finally show ?thesis using False by (simp add: two_powi_neg)
  qed
  have "ilog2_frac p q =
          (if (if 0 \<le> d then q * 2 ^ nat d \<le> p else q \<le> p * 2 ^ nat (- d)) then d else d - 1)"
    unfolding ilog2_frac_def d_def Let_def by (rule refl)
  then have il: "ilog2_frac p q = (if 2 powi d \<le> x then d else d - 1)"
    by (simp only: test)
  show ?thesis
  proof (cases "2 powi d \<le> x")
    case True
    then have "ilog2_frac p q = d" using il by simp
    then show ?thesis using True upper by (simp add: x_def)
  next
    case False
    then have "ilog2_frac p q = d - 1" using il by simp
    then show ?thesis using False lower by (simp add: x_def)
  qed
qed

lemma round53_error:
  assumes "0 < p" and "0 < q"
  shows "\<bar>dval (round53 p q) - of_nat p / of_nat q\<bar> \<le> (of_nat p / of_nat q) / 2 ^ 53"
proof -
  define e where "e = ilog2_frac p q"
  define sh where "sh = 52 - e"
  define x :: rat where "x = of_nat p / of_nat q"
  define u :: rat where "u = 2 powi (- sh)"
  define m where "m = (if 0 \<le> sh then round_half_even (p * 2 ^ nat sh) q
                       else round_half_even p (q * 2 ^ nat (- sh)))"
  have upos: "0 < u" by (simp add: u_def)
  have qpos: "(0::rat) < of_nat q" using assms by simp
  have r: "round53 p q = \<lparr>mant = m, expo = - sh\<rparr>"
    using assms(1) unfolding round53_def m_def sh_def e_def Let_def by simp
  have dv: "dval (round53 p q) = of_nat m * u"
    by (simp add: r dval_def u_def)
  have key: "\<bar>of_nat m - x / u\<bar> \<le> 1 / 2"
  proof (cases "0 \<le> sh")
    case True
    then have u': "u = 1 / 2 ^ nat sh"
      by (cases "sh = 0") (simp_all add: u_def two_powi_neg)
    have "(of_nat (p * 2 ^ nat sh) :: rat) / of_nat q = x / u"
      by (simp add: x_def u')
    moreover have "m = round_half_even (p * 2 ^ nat sh) q" using True by (simp add: m_def)
    ultimately show ?thesis
      using round_half_even_error [OF assms(2), of "p * 2 ^ nat sh"] by simp
  next
    case False
    then have u': "u = 2 ^ nat (- sh)" by (simp add: u_def two_powi_nat)
    have "(of_nat p :: rat) / of_nat (q * 2 ^ nat (- sh)) = x / u"
      by (simp add: x_def u')
    moreover have "m = round_half_even p (q * 2 ^ nat (- sh))" using False by (simp add: m_def)
    moreover have "0 < q * 2 ^ nat (- sh)" using assms(2) by simp
    ultimately show ?thesis
      using round_half_even_error [of "q * 2 ^ nat (- sh)" p] by simp
  qed
  have "of_nat m * u - x = u * (of_nat m - x / u)" using upos by (simp add: field_simps)
  then have "\<bar>of_nat m * u - x\<bar> = u * \<bar>of_nat m - x / u\<bar>"
    using upos by (simp add: abs_mult)
  also have "\<dots> \<le> u * (1 / 2)" using key upos by (simp only: mult_le_cancel_left_pos)
  finally have err: "\<bar>of_nat m * u - x\<bar> \<le> u / 2" by simp
  have "- sh = e + (- 52)" by (simp add: sh_def)
  then have "u = 2 powi e * 2 powi (- 52)"
    unfolding u_def using two_powi_add [of e "- 52"] by (simp only:)
  then have ue: "u = 2 powi e / 2 ^ 52" by (simp add: two_powi_neg)
  have "2 powi e \<le> x" using ilog2_frac_bounds [OF assms] by (simp add: e_def x_def)
  then have "u \<le> x / 2 ^ 52" by (simp add: ue divide_right_mono)
  then have "u / 2 \<le> x / 2 ^ 53" by simp
  then show ?thesis using err dv by (simp add: x_def)
qed

lemma fdiv_error:
  assumes "0 < b"
  shows "\<bar>dval (fdiv a b) - of_nat a / of_nat b\<bar> \<le> (of_nat a / of_nat b) / 2 ^ 53"
proof (cases "a = 0")
  case True
  then show ?thesis by (simp add: fdiv_def round53_def dval_def)
next
  case False
  then show ?thesis using round53_error [of a b] assms by (simp add: fdiv_def)
qed

lemma fmul_error:
  "\<bar>dval (fmul m d) - of_nat m * dval d\<bar> \<le> (of_nat m * dval d) / 2 ^ 53"
proof (cases "m * mant d = 0")
  case True
  then show ?thesis by (auto simp add: fmul_def round53_def dval_def)
next
  case False
  define r where "r = round53 (m * mant d) 1"
  define s :: rat where "s = 2 powi (expo d)"
  have spos: "0 < s" by (simp add: s_def)
  have "dval (fmul m d) = of_nat (mant r) * 2 powi (expo r + expo d)"
    by (simp add: fmul_def r_def dval_def Let_def)
  also have "\<dots> = dval r * s"
    by (simp add: dval_def s_def two_powi_add)
  finally have dv: "dval (fmul m d) = dval r * s" .
  have md: "of_nat m * dval d = of_nat (m * mant d) * s"
    by (simp add: dval_def s_def)
  have e: "\<bar>dval r - of_nat (m * mant d)\<bar> \<le> of_nat (m * mant d) / 2 ^ 53"
    using round53_error [of "m * mant d" 1] False by (simp add: r_def)
  have "dval (fmul m d) - of_nat m * dval d = s * (dval r - of_nat (m * mant d))"
    by (simp add: dv md algebra_simps)
  then have "\<bar>dval (fmul m d) - of_nat m * dval d\<bar> = s * \<bar>dval r - of_nat (m * mant d)\<bar>"
    using spos by (simp add: abs_mult)
  also have "\<dots> \<le> s * (of_nat (m * mant d) / 2 ^ 53)"
    using e spos by (simp only: mult_le_cancel_left_pos)
  also have "\<dots> = (of_nat m * dval d) / 2 ^ 53" by (simp add: md)
  finally show ?thesis .
qed

lemma math_round_floor: "math_round d = \<lfloor>dval d + 1 / 2\<rfloor>"
proof (cases "0 \<le> expo d")
  case True
  define z where "z = int (mant d * 2 ^ nat (expo d))"
  have "dval d = of_int z" using True by (simp add: dval_def two_powi_nat z_def)
  then have "\<lfloor>dval d + 1 / 2\<rfloor> = z" by (simp add: floor_eq_iff)
  then show ?thesis using True by (simp add: math_round_def z_def)
next
  case False
  define k where "k = nat (- expo d)"
  have dv: "dval d = of_nat (mant d) / 2 ^ k"
    using False by (simp add: dval_def two_powi_neg k_def)
  have "dval d + 1 / 2 = of_int (int (2 * mant d + 2 ^ k)) / of_int (int (2 ^ (k + 1)))"
    by (simp add: dv field_simps)
  then have "\<lfloor>dval d + 1 / 2\<rfloor> = int (2 * mant d + 2 ^ k) div int (2 ^ (k + 1))"
    by (simp only: floor_divide_of_int_eq)
  also have "\<dots> = int ((2 * mant d + 2 ^ k) div 2 ^ (k + 1))"
    by (simp only: zdiv_int)
  finally show ?thesis using False by (simp add: math_round_def k_def)
qed

subsection \<open>The new height\<close>

lemma new_height_error:
  assumes "m < W" and "H < 2 ^ 32"
  shows "\<bar>dval (fmul m (fdiv H W)) - of_nat m * of_nat H / of_nat W\<bar> \<le> 3 / 2 ^ 21"
proof -
  define eps :: rat where "eps = 1 / 2 ^ 53"
  define hw :: rat where "hw = of_nat H / of_nat W"
  define q where "q = dval (fdiv H W)"
  define x where "x = dval (fmul m (fdiv H W))"
  define v :: rat where "v = of_nat m * hw"
  have Wpos: "0 < W" using assms(1) by simp
  have wpos: "(0::rat) < of_nat W" using Wpos by simp
  have hw0: "0 \<le> hw" by (simp add: hw_def)
  have v0: "0 \<le> v" using hw0 by (simp add: v_def)
  have eps0: "0 \<le> eps" "eps \<le> 1" by (simp_all add: eps_def)
  have eq: "\<bar>q - hw\<bar> \<le> hw * eps"
    using fdiv_error [OF Wpos, of H] by (simp add: q_def hw_def eps_def)
  then have qle: "q \<le> hw * (1 + eps)" by (simp add: algebra_simps abs_le_iff)
  have ex: "\<bar>x - of_nat m * q\<bar> \<le> of_nat m * q * eps"
    using fmul_error [of m "fdiv H W"] by (simp add: x_def q_def eps_def)
  have "of_nat m * q \<le> of_nat m * (hw * (1 + eps))"
    using qle by (simp add: mult_left_mono)
  then have "of_nat m * q * eps \<le> of_nat m * (hw * (1 + eps)) * eps"
    using eps0(1) by (rule mult_right_mono)
  then have mq: "of_nat m * q * eps \<le> v * (1 + eps) * eps"
    by (simp add: v_def mult.assoc)
  have "\<bar>of_nat m * q - v\<bar> = of_nat m * \<bar>q - hw\<bar>"
    by (simp add: v_def abs_mult right_diff_distrib [symmetric])
  also have "\<dots> \<le> of_nat m * (hw * eps)" using eq by (simp add: mult_left_mono)
  finally have mv: "\<bar>of_nat m * q - v\<bar> \<le> v * eps" by (simp add: v_def mult.assoc)
  have "\<bar>x - v\<bar> \<le> \<bar>x - of_nat m * q\<bar> + \<bar>of_nat m * q - v\<bar>" by simp
  also have "\<dots> \<le> v * (1 + eps) * eps + v * eps" using ex mq mv by linarith
  also have "\<dots> = v * (eps * (2 + eps))" by (simp add: algebra_simps)
  also have "\<dots> \<le> v * (eps * 3)"
    using v0 eps0 by (intro mult_left_mono) simp_all
  finally have xv: "\<bar>x - v\<bar> \<le> v * (eps * 3)" .
  have "(of_nat m :: rat) \<le> of_nat W" using assms(1) by simp
  then have "of_nat m * (of_nat H :: rat) \<le> of_nat W * of_nat H"
    by (intro mult_right_mono) simp_all
  then have "v \<le> of_nat H" using wpos by (simp add: v_def hw_def pos_divide_le_eq mult.commute)
  moreover have "(of_nat H :: rat) \<le> 2 ^ 32"
  proof -
    have "(of_nat H :: rat) \<le> of_nat (2 ^ 32)" using assms(2) by (simp only: of_nat_le_iff)
    then show ?thesis by simp
  qed
  ultimately have "v \<le> 2 ^ 32" by linarith
  then have "v * (eps * 3) \<le> 2 ^ 32 * (eps * 3)"
    using eps0 by (intro mult_right_mono) simp_all
  also have "\<dots> = 3 / 2 ^ 21" by (simp add: eps_def)
  finally have "v * (eps * 3) \<le> 3 / 2 ^ 21" .
  then show ?thesis using xv by (simp add: x_def v_def hw_def)
qed

lemma new_height_close:
  assumes "m < W" and "H < 2 ^ 32"
  shows "\<bar>of_int (new_height m W H) - (of_nat m * of_nat H / of_nat W :: rat)\<bar> \<le> 1"
proof -
  define x where "x = dval (fmul m (fdiv H W))"
  define v :: rat where "v = of_nat m * of_nat H / of_nat W"
  have nh: "new_height m W H = \<lfloor>x + 1 / 2\<rfloor>"
    by (simp add: new_height_def math_round_floor x_def Let_def)
  define n :: rat where "n = of_int \<lfloor>x + 1 / 2\<rfloor>"
  have f1: "n \<le> x + 1 / 2" unfolding n_def by linarith
  have f2: "x + 1 / 2 < n + 1" unfolding n_def by linarith
  have e: "\<bar>x - v\<bar> \<le> 3 / 2 ^ 21"
    using new_height_error [OF assms] by (simp add: x_def v_def)
  have "(3::rat) / 2 ^ 21 \<le> 1 / 2" by simp
  then have "\<bar>x - v\<bar> \<le> 1 / 2" using e by linarith
  then have "x - v \<le> 1 / 2" and "v - x \<le> 1 / 2" by linarith+
  then have "n - v \<le> 1" and "v - n \<le> 1" using f1 f2 by linarith+
  then have "\<bar>n - v\<bar> \<le> 1" by linarith
  then show ?thesis by (simp add: nh v_def n_def)
qed

lemma new_height_range:
  assumes "m < W" and "H < 2 ^ 32"
  shows "0 \<le> new_height m W H \<and> new_height m W H \<le> int H"
proof -
  define v :: rat where "v = of_nat m * of_nat H / of_nat W"
  have wpos: "(0::rat) < of_nat W" using assms(1) by simp
  have nn: "0 \<le> new_height m W H"
    by (simp add: new_height_def math_round_def Let_def)
  have c: "\<bar>of_int (new_height m W H) - v\<bar> \<le> 1"
    using new_height_close [OF assms] by (simp add: v_def)
  show ?thesis
  proof (cases "H = 0")
    case True
    then have "v = 0" by (simp add: v_def)
    moreover have "new_height m W 0 = 0"
      by (simp add: new_height_def fdiv_def fmul_def round53_def math_round_def Let_def)
    ultimately show ?thesis using True by simp
  next
    case False
    then have hpos: "(0::rat) < of_nat H" by simp
    have "(of_nat m :: rat) < of_nat W" using assms(1) by simp
    then have "of_nat m * (of_nat H :: rat) < of_nat W * of_nat H"
      using hpos by (simp only: mult_less_cancel_right_pos)
    then have "v < of_nat H" using wpos by (simp add: v_def pos_divide_less_eq mult.commute)
    then have "(of_int (new_height m W H) :: rat) < of_nat H + 1" using c by (simp add: abs_le_iff)
    then have "(of_int (new_height m W H) :: rat) < of_int (int H + 1)" by simp
    then have "new_height m W H < int H + 1" by (simp only: of_int_less_iff)
    then show ?thesis using nn by simp
  qed
qed

lemma fileSizeMB_gt:
  "((of_nat sz :: rat) / (1024 * 1024) > 20) = (sz > 20 * 1024 * 1024)"
  "((of_nat sz :: rat) / (1024 * 1024) > 10) = (sz > 10 * 1024 * 1024)"
proof -
  have a: "((of_nat sz :: rat) / (1024 * 1024) > 20) = (of_nat (20 * 1024 * 1024) < (of_nat sz :: rat))"
    by (simp add: field_simps)
  show "((of_nat sz :: rat) / (1024 * 1024) > 20) = (sz > 20 * 1024 * 1024)"
    unfolding a by (simp only: of_nat_less_iff)
  have b: "((of_nat sz :: rat) / (1024 * 1024) > 10) = (of_nat (10 * 1024 * 1024) < (of_nat sz :: rat))"
    by (simp add: field_simps)
  show "((of_nat sz :: rat) / (1024 * 1024) > 10) = (sz > 10 * 1024 * 1024)"
    unfolding b by (simp only: of_nat_less_iff)
qed

lemma select_tier_nat:
  "select_tier (of_nat sz / (1024 * 1024)) W H =
     (if sz > 20 * 1024 * 1024 \<or> W > 5000 \<or> H > 5000 then (1600, 70)
      else if sz > 10 * 1024 * 1024 \<or> W > 4000 \<or> H > 4000 then (1800, 72)
      else (1920, 75))"
  unfolding select_tier_def fileSizeMB_gt by simp

lemma select_tier_max:
  "fst (select_tier mb W H) \<le> 1920 \<and> 0 < fst (select_tier mb W H)"
  by (simp add: select_tier_def)

lemma unat_of_nat_32: "n < 2 ^ 32 \<Longrightarrow> unat (of_nat n :: 32 word) = n"
  by (simp add: unat_of_nat)

lemma unat_of_int_32: "0 \<le> i \<Longrightarrow> i < 2 ^ 32 \<Longrightarrow> int (unat (of_int i :: 32 word)) = i"
  by (simp add: unat_eq_nat_uint uint_word_of_int)

lemma transcode_Inr:
  assumes "transcode en sz img = Inr buf"
  shows "jpeg_quality buf = snd (select_tier (of_nat sz / (1024 * 1024)) (unat (img_width img)) (unat (img_height img))) \<and>
         (fst (select_tier (of_nat sz / (1024 * 1024)) (unat (img_width img)) (unat (img_height img))) < unat (img_width img) \<longrightarrow>
            jpeg_width buf = of_nat (fst (select_tier (of_nat sz / (1024 * 1024)) (unat (img_width img)) (unat (img_height img)))) \<and>
            jpeg_height buf = of_int (new_height (fst (select_tier (of_nat sz / (1024 * 1024)) (unat (img_width img)) (unat (img_height img)))) (unat (img_width img)) (unat (img_height img)))) \<and>
         (\<not> fst (select_tier (of_nat sz / (1024 * 1024)) (unat (img_width img)) (unat (img_height img))) < unat (img_width img) \<longrightarrow>
            jpeg_width buf = img_width img \<and> jpeg_height buf = img_height img)"
proof -
  let ?t = "select_tier (of_nat sz / (1024 * 1024)) (unat (img_width img)) (unat (img_height img))"
  obtain mw ql where t: "?t = (mw, ql)" by (cases ?t)
  show ?thesis
  proof (cases "mw < unat (img_width img)")
    case True
    then show ?thesis using assms t
      by (cases "resize_fault en"; cases "encode_fault en")
         (auto simp add: transcode_def Let_def resize_def get_bytes_jpeg_def)
  next
    case False
    then show ?thesis using assms t
      by (cases "encode_fault en")
         (auto simp add: transcode_def Let_def get_bytes_jpeg_def)
  qed
qed

lemma fdiv_4040_1920: "fdiv 4040 1920 = \<lparr>mant = 4738162107962709, expo = - 51\<rparr>"
  by (simp add: fdiv_def round53_def ilog2_frac_def bit_length.simps round_half_even_def Let_def)

lemma fmul_1800_tall:
  "fmul 1800 \<lparr>mant = 4738162107962709, expo = - 51\<rparr> =
     \<lparr>mant = 8328800580403199, expo = - 41\<rparr>"
  by (simp add: fmul_def round53_def ilog2_frac_def bit_length.simps round_half_even_def Let_def)

lemma new_height_tall: "new_height 1800 1920 4040 = 3787"
  by (simp add: new_height_def fdiv_4040_1920 fmul_1800_tall math_round_def)

lemma transcode_tall: "transcode tall_env 1048576 tall_image = Inr tall_jpeg"
  by (simp add: transcode_def select_tier_def new_height_tall resize_def get_bytes_jpeg_def
      tall_env_def example_env_def tall_image_def tall_jpeg_def)

lemma stored_filename_tall:
  "stored_filename [''flower.jpg'', ''vase.jpg''] ''tall.png'' 1700000000000 = ''tall.jpg''"
  by (simp add: stored_filename_def nameWithoutExt_def lastIndexOf_def)

lemma tall_upload_run:
  "action tall_env tall_upload example_world =
     (jsonResponse True ''File uploaded successfully'' 200,
      example_world\<lparr>rows := rows example_world @
                      [\<lparr>row_id = ''id-new'', row_filename = ''tall.jpg'',
                        row_url = ''https://asset.aoya-pottery.com/tall.jpg'',
                        row_size = 345678, row_content_type = Some ''image/jpeg'',
                        row_uploaded_at = ''2025-03-01T10:00:00.000Z'',
                        row_display_order = Some 3\<rparr>],
                    bucket := (bucket example_world)
                      (''tall.jpg'' \<mapsto>
                         \<lparr>obj_body = tall_jpeg, obj_content_type = ''image/jpeg'',
                          obj_acl = ''public-read''\<rparr>)\<rparr>)"
proof -
  have names: "map row_filename (rows example_world) = [''flower.jpg'', ''vase.jpg'']"
    by (simp add: example_world_def example_row_def)
  have dec: "decode tall_env = Inr tall_image"
    by (simp add: tall_env_def)
  have faults: "select_filenames_fault tall_env = None" "s3_put_fault tall_env = None"
    "alter_fault tall_env = None" "max_order_fault tall_env = None"
    "insert_fault tall_env = None" "date_now tall_env = 1700000000000"
    "random_uuid tall_env = ''id-new''" "now_iso tall_env = ''2025-03-01T10:00:00.000Z''"
    by (simp_all add: tall_env_def example_env_def)
  have col: "has_display_order example_world" by (simp add: example_world_def)
  have ids: "map row_id (rows example_world) = [''a'', ''b'']"
    by (simp add: example_world_def example_row_def)
  show ?thesis
    by (simp add: action_def upload_def tall_upload_def upload_request_def maxFileSize_def
        db_select_filenames_def names dec transcode_tall stored_filename_tall faults
        s3_put_def try_add_display_order_def db_add_display_order_def col next_order_def
        db_select_max_order_def db_insert_def ids tall_jpeg_def js_plus_one_exact
        max_display_order_def List.map_filter_simps example_world_def example_row_def Let_def)
qed


text \<open>
  Claim C2, as amended. After a successful upload of a file of \<open>sz\<close> bytes decoded to a
  \<open>W\<close> by \<open>H\<close> image, the stored JPEG has the quality of its tier and a width of at most
  the maximum width of its tier: 1600 and 70 when \<open>sz\<close> exceeds 20 MB or a dimension
  exceeds 5000, else 1800 and 72 when \<open>sz\<close> exceeds 10 MB or a dimension exceeds 4000,
  else 1920 and 75. When \<open>W\<close> exceeds the maximum the image is resized: the width is the
  maximum and the height is \<^verbatim>\<open>Math.round\<close> of the double-precision product of the maximum
  and the double-precision quotient \<open>H / W\<close>, which is within one pixel of the exact
  \<open>maxWidth * H / W\<close>. Otherwise the image keeps its dimensions.
\<close>

theorem upload_resize_tiers:
  assumes "fd_intent fd = Some ''upload''" and "fd_file fd = Some f"
    and "decode en = Inr img" and "action en fd w = (resp, w')" and "success resp"
  shows "let W = unat (img_width img); H = unat (img_height img); sz = file_size f;
             maxWidth = (if sz > 20 * 1024 * 1024 \<or> W > 5000 \<or> H > 5000 then 1600
                         else if sz > 10 * 1024 * 1024 \<or> W > 4000 \<or> H > 4000 then 1800
                         else 1920);
             quality = (if sz > 20 * 1024 * 1024 \<or> W > 5000 \<or> H > 5000 then 70
                        else if sz > 10 * 1024 * 1024 \<or> W > 4000 \<or> H > 4000 then 72
                        else 75);
             stored = stored_filename (map row_filename (rows w)) (file_name f) (date_now en)
         in \<exists>obj. bucket w' stored = Some obj \<and>
              jpeg_quality (obj_body obj) = quality \<and>
              unat (jpeg_width (obj_body obj)) \<le> maxWidth \<and>
              (maxWidth < W \<longrightarrow>
                 unat (jpeg_width (obj_body obj)) = maxWidth \<and>
                 int (unat (jpeg_height (obj_body obj))) = new_height maxWidth W H \<and>
                 new_height maxWidth W H = math_round (fmul maxWidth (fdiv H W)) \<and>
                 \<bar>of_int (new_height maxWidth W H) -
                    (of_nat maxWidth * of_nat H / of_nat W :: rat)\<bar> \<le> 1) \<and>
              (W \<le> maxWidth \<longrightarrow>
                 jpeg_width (obj_body obj) = img_width img \<and>
                 jpeg_height (obj_body obj) = img_height img)"
proof -
  define W where "W = unat (img_width img)"
  define H where "H = unat (img_height img)"
  define sz where "sz = file_size f"
  define maxWidth :: nat where
    "maxWidth = (if sz > 20 * 1024 * 1024 \<or> W > 5000 \<or> H > 5000 then 1600
                 else if sz > 10 * 1024 * 1024 \<or> W > 4000 \<or> H > 4000 then 1800 else 1920)"
  define quality :: nat where
    "quality = (if sz > 20 * 1024 * 1024 \<or> W > 5000 \<or> H > 5000 then 70
                else if sz > 10 * 1024 * 1024 \<or> W > 4000 \<or> H > 4000 then 72 else 75)"
  define stored where
    "stored = stored_filename (map row_filename (rows w)) (file_name f) (date_now en)"
  have tier: "select_tier (of_nat sz / (1024 * 1024)) W H = (maxWidth, quality)"
    unfolding select_tier_nat maxWidth_def quality_def by simp
  have mw: "maxWidth \<le> 1920" "maxWidth < 2 ^ 32" by (simp_all add: maxWidth_def)
  have Hb: "H < 2 ^ 32" using unsigned_less [of "img_height img"] by (simp add: H_def)
  have up: "upload en fd w = (resp, w')" using assms by (simp add: action_def)
  from upload_success_chain [OF assms(2) up assms(5)] assms(3)
  obtain buf w1 where
    tr: "transcode en (file_size f) img = Inr buf"
    and put: "s3_put (s3_put_fault en) stored
             \<lparr>obj_body = buf, obj_content_type = ''image/jpeg'', obj_acl = ''public-read''\<rparr> w = Inr w1"
    and ins: "db_insert (insert_fault en)
             \<lparr>row_id = random_uuid en, row_filename = stored,
              row_url = ''https://asset.aoya-pottery.com/'' @ stored,
              row_size = jpeg_length buf, row_content_type = Some ''image/jpeg'',
              row_uploaded_at = now_iso en,
              row_display_order =
                Some (next_order (max_order_fault en) (try_add_display_order (alter_fault en) w1))\<rparr>
             (try_add_display_order (alter_fault en) w1) = Inr w'"
    unfolding stored_def by auto
  let ?obj = "\<lparr>obj_body = buf, obj_content_type = ''image/jpeg'', obj_acl = ''public-read''\<rparr>"
  have b1: "bucket w1 stored = Some ?obj" using s3_put_Inr [OF put] by simp
  have "bucket w' = bucket w1" using db_insert_Inr [OF ins] by simp
  then have b: "bucket w' stored = Some ?obj" using b1 by simp
  note T = transcode_Inr [OF tr, folded sz_def W_def H_def, unfolded tier fst_conv snd_conv]
  have q: "jpeg_quality buf = quality" using T by simp
  have big: "maxWidth < W \<Longrightarrow>
        unat (jpeg_width buf) = maxWidth \<and>
        int (unat (jpeg_height buf)) = new_height maxWidth W H \<and>
        new_height maxWidth W H = math_round (fmul maxWidth (fdiv H W)) \<and>
        \<bar>of_int (new_height maxWidth W H) - (of_nat maxWidth * of_nat H / of_nat W :: rat)\<bar> \<le> 1"
  proof -
    assume lt: "maxWidth < W"
    have w: "jpeg_width buf = of_nat maxWidth"
      and h: "jpeg_height buf = of_int (new_height maxWidth W H)"
      using T lt by simp_all
    have r: "0 \<le> new_height maxWidth W H \<and> new_height maxWidth W H \<le> int H"
      using new_height_range [OF lt Hb] .
    then have r2: "new_height maxWidth W H < 2 ^ 32" using Hb by simp
    have "unat (jpeg_width buf) = maxWidth" using w mw(2) by (simp add: unat_of_nat_32)
    moreover have "int (unat (jpeg_height buf)) = new_height maxWidth W H"
      unfolding h using r r2 by (intro unat_of_int_32) simp_all
    moreover have "new_height maxWidth W H = math_round (fmul maxWidth (fdiv H W))"
      by (simp add: new_height_def Let_def)
    moreover have "\<bar>of_int (new_height maxWidth W H) -
                    (of_nat maxWidth * of_nat H / of_nat W :: rat)\<bar> \<le> 1"
      using new_height_close [OF lt Hb] .
    ultimately show ?thesis by blast
  qed
  have small: "W \<le> maxWidth \<Longrightarrow> jpeg_width buf = img_width img \<and> jpeg_height buf = img_height img"
    using T by simp
  have le: "unat (jpeg_width buf) \<le> maxWidth"
  proof (cases "maxWidth < W")
    case True
    then show ?thesis using big by simp
  next
    case False
    then show ?thesis using small by (simp add: W_def)
  qed
  have "\<exists>obj. bucket w' stored = Some obj \<and>
              jpeg_quality (obj_body obj) = quality \<and>
              unat (jpeg_width (obj_body obj)) \<le> maxWidth \<and>
              (maxWidth < W \<longrightarrow>
                 unat (jpeg_width (obj_body obj)) = maxWidth \<and>
                 int (unat (jpeg_height (obj_body obj))) = new_height maxWidth W H \<and>
                 new_height maxWidth W H = math_round (fmul maxWidth (fdiv H W)) \<and>
                 \<bar>of_int (new_height maxWidth W H) -
                    (of_nat maxWidth * of_nat H / of_nat W :: rat)\<bar> \<le> 1) \<and>
              (W \<le> maxWidth \<longrightarrow>
                 jpeg_width (obj_body obj) = img_width img \<and>
                 jpeg_height (obj_body obj) = img_height img)"
  proof (intro exI [of _ ?obj] conjI)
    show "bucket w' stored = Some ?obj" by (rule b)
    show "jpeg_quality (obj_body ?obj) = quality" using q by simp
    show "unat (jpeg_width (obj_body ?obj)) \<le> maxWidth" using le by simp
    show "maxWidth < W \<longrightarrow>
                 unat (jpeg_width (obj_body ?obj)) = maxWidth \<and>
                 int (unat (jpeg_height (obj_body ?obj))) = new_height maxWidth W H \<and>
                 new_height maxWidth W H = math_round (fmul maxWidth (fdiv H W)) \<and>
                 \<bar>of_int (new_height maxWidth W H) -
                    (of_nat maxWidth * of_nat H / of_nat W :: rat)\<bar> \<le> 1"
      using big by (simp only: stored_object.simps) blast
    show "W \<le> maxWidth \<longrightarrow>
                 jpeg_width (obj_body ?obj) = img_width img \<and>
                 jpeg_height (obj_body ?obj) = img_height img"
      using small by (simp only: stored_object.simps) blast
  qed
  then show ?thesis
    unfolding Let_def W_def H_def sz_def maxWidth_def quality_def stored_def .
qed

theorem upload_resize_tiers_witness:
  "\<exists>obj. bucket (snd (action example_env flower_upload example_world))
           ''flower-1700000000000.jpg'' = Some obj \<and>
         jpeg_quality (obj_body obj) = 75 \<and>
         unat (jpeg_width (obj_body obj)) = 1920 \<and>
         int (unat (jpeg_height (obj_body obj))) = 960"
proof -
  have i: "fd_intent flower_upload = Some ''upload''"
    and f: "fd_file flower_upload = Some \<lparr>file_name = ''flower.png'', file_size = 8388608\<rparr>"
    by (simp_all add: flower_upload_def upload_request_def)
  have dec: "decode example_env = Inr \<lparr>img_width = 2000, img_height = 1000\<rparr>"
    by (simp add: example_env_def)
  have s: "success (jsonResponse True ''File uploaded successfully'' 200)"
    by (simp add: jsonResponse_def)
  have names: "map row_filename (rows example_world) = [''flower.jpg'', ''vase.jpg'']"
    by (simp add: example_world_def example_row_def)
  have d: "date_now example_env = 1700000000000" by (simp add: example_env_def)
  show ?thesis
    using upload_resize_tiers [OF i f dec flower_upload_run s]
    by (simp add: Let_def names d stored_filename_flower new_height_flower flower_upload_run)
qed


text \<open>
  Claim C2 as stated has the height equal the rounded value of \<open>maxWidth * H / W\<close>. For a
  1920 by 4040 image the tier maximum is 1800 and \<open>1800 * 4040 / 1920\<close> is 3787.5, which
  rounds to 3788; the quotient rounds down in double precision, the product comes out
  just below 3787.5, and the stored height is 3787.
\<close>

theorem resized_height_not_nearest_counterexample:
  "unat (img_width tall_image) = 1920 \<and> unat (img_height tall_image) = 4040 \<and>
   success (fst (action tall_env tall_upload example_world)) \<and>
   map_option (unat \<circ> jpeg_width \<circ> obj_body)
     (bucket (snd (action tall_env tall_upload example_world)) ''tall.jpg'') = Some 1800 \<and>
   map_option (unat \<circ> jpeg_height \<circ> obj_body)
     (bucket (snd (action tall_env tall_upload example_world)) ''tall.jpg'') = Some 3787 \<and>
   round ((1800::rat) * 4040 / 1920) = 3788"
proof -
  have "round ((1800::rat) * 4040 / 1920) = 3788"
    by (simp add: round_def floor_eq_iff)
  then show ?thesis
    by (simp add: tall_upload_run jsonResponse_def tall_jpeg_def tall_image_def)
qed

end
